theory Spec2Isabelle
  imports Main "HOL-Library.AList"
begin

section \<open>Python values used by the middleware\<close>

text \<open>
  Exceptions are values.  \<open>Exception\<close>, \<open>KeyError\<close>, \<open>IndexError\<close> and
  \<open>AttributeError\<close> are instances of Python's class \<open>Exception\<close> (the last three
  of subclasses of it); \<open>BaseException\<close> stands for the exceptions outside that
  class (\<open>asyncio.CancelledError\<close>, \<open>KeyboardInterrupt\<close>, ...), which the clause
  \<open>except Exception\<close> of \<open>__call__\<close> does not catch.
\<close>

datatype exc =
    Exception string
  | KeyError string
  | IndexError string
  | AttributeError string
  | BaseException string

fun isinstance_Exception :: "exc \<Rightarrow> bool" where
  "isinstance_Exception (BaseException _) = False"
| "isinstance_Exception _ = True"

text \<open>Python's \<open>str\<close> on an (unbounded) integer: the decimal digits, after a minus sign
  for a negative number.\<close>

definition digit_char :: "nat \<Rightarrow> char" where
  "digit_char d = ''0123456789'' ! d"

fun str_nat :: "nat \<Rightarrow> string" where
  "str_nat n = (if n < 10 then [digit_char n] else str_nat (n div 10) @ [digit_char (n mod 10)])"

declare str_nat.simps [simp del]

definition str :: "int \<Rightarrow> string" where
  "str i = (if i < 0 then CHR ''-'' # str_nat (nat (- i)) else str_nat (nat i))"

text \<open>A label set is a Python dict from label names to values; the value of \<open>method\<close> is
  \<open>scope.get("method")\<close>, which is \<open>None\<close> when the scope has no such key.  The dict is
  kept as an association list in insertion order; \<open>d[k] = v\<close> is \<open>AList.update k v d\<close>.\<close>

type_synonym labels = "(string \<times> string option) list"

section \<open>ASGI scopes, messages and callables\<close>

text \<open>
  \<open>Scope = Dict[str, Any]\<close>.  The key \<open>type\<close> is read with \<open>scope["type"]\<close> and is present
  in every ASGI scope; the other keys are read with \<open>scope.get\<close>, so they may be absent.
  The value under \<open>app\<close> is a reference to the application object.
\<close>

type_synonym app_ref = nat

record scope =
  scope_type :: string
  scope_method :: "string option"
  scope_path :: "string option"
  scope_root_path :: "string option"
  scope_app :: "app_ref option"

text \<open>\<open>Message = Dict[str, Any]\<close>: the key \<open>type\<close>, the key \<open>status\<close> (an integer, present
  in a well-formed \<open>http.response.start\<close>), and the rest of the message.\<close>

record message =
  msg_type :: string
  msg_status :: "int option"
  msg_rest :: string

text \<open>
  The next ASGI callable, \<open>await app(scope, receive, send)\<close>, as the sequence of its
  interactions with the \<open>send\<close> it was given: it returns, raises, or awaits
  \<open>send(message)\<close> and goes on from the result of that call (\<open>None\<close>: the call returned,
  \<open>Some e\<close>: it raised \<open>e\<close>).  \<open>receive\<close> is handed on untouched by the middleware
  and is left out.  A value of this type is a callable that ends after finitely many
  calls of \<open>send\<close>.
\<close>

datatype handler =
    Return
  | Raise exc
  | Await_send message "exc option \<Rightarrow> handler"

type_synonym asgi_app = "scope \<Rightarrow> handler"

text \<open>The \<open>send\<close> callable of the server: whether it raises on a message may depend
  on the messages it was given before.\<close>

type_synonym send_fn = "message list \<Rightarrow> message \<Rightarrow> exc option"

primrec interp :: "('s \<Rightarrow> message \<Rightarrow> 's \<times> exc option) \<Rightarrow> handler \<Rightarrow> 's \<Rightarrow> 's \<times> exc option" where
  "interp snd_fn Return s = (s, None)"
| "interp snd_fn (Raise e) s = (s, Some e)"
| "interp snd_fn (Await_send m k) s = (case snd_fn s m of (s', r) \<Rightarrow> interp snd_fn (k r) s')"

section \<open>Starlette routes\<close>

text \<open>\<open>starlette.routing.Match\<close> is an enumeration with the values 0, 1 and 2.\<close>

datatype Match = NONE | PARTIAL | FULL

fun Match_value :: "Match \<Rightarrow> int" where
  "Match_value NONE = 0"
| "Match_value PARTIAL = 1"
| "Match_value FULL = 2"

record route =
  route_path :: string
  route_matches :: "scope \<Rightarrow> Match"

section \<open>Registry, counters and the world outside the middleware\<close>

text \<open>A value passed as the argument \<open>registry\<close>: \<open>None\<close>, a reference to a \<open>Registry\<close>
  object, or an object of another type (given by the text its type prints as).\<close>

datatype pyobj = PyNone | Registry nat | Other string

fun isinstance_Registry :: "pyobj \<Rightarrow> bool" where
  "isinstance_Registry (Registry _) = True"
| "isinstance_Registry _ = False"

text \<open>What a \<open>Counter(name, doc, const_labels=..., registry=...)\<close> call hands to the
  registry.\<close>

record collector =
  col_name :: string
  col_doc :: string
  col_const_labels :: "labels option"
  col_registry :: pyobj

text \<open>The state outside the middleware object: the collectors registered so far, and
  the messages handed to the server's \<open>send\<close> so far.\<close>

record world =
  registered :: "collector list"
  sent :: "message list"

text \<open>
  The classes \<open>Counter\<close> and \<open>Registry\<close> of the package \<open>aioprometheus\<close> and the
  application object are not part of \<open>middleware.py\<close>.  They are parameters of the
  model: \<open>Counter_raises\<close> says, from the collectors registered so far, whether the
  constructor \<open>Counter(...)\<close> raises (as the registry does on a registration it
  rejects); \<open>app_routes\<close> gives the attribute \<open>routes\<close> of an application object.
\<close>

record env =
  Counter_raises :: "collector list \<Rightarrow> collector \<Rightarrow> exc option"
  app_routes :: "app_ref \<Rightarrow> route list"

text \<open>Modelled from the spec: the class \<open>Counter\<close> (\<open>aioprometheus.Counter\<close>, not in
  \<open>middleware.py\<close>) is "a monotonically increasing named, labeled metric value": a
  count for each label set.\<close>

type_synonym counter = "labels \<Rightarrow> nat"

text \<open>Modelled from the spec: a counter that was just created has counted nothing.\<close>

definition zero_counter :: counter where
  "zero_counter = (\<lambda>_. 0)"

text \<open>Modelled from the spec: \<open>Counter.inc(labels)\<close>, the operation
  \<open>increment(labelMap)\<close>, adds one to the count of the label set given and leaves
  the other counts as they are.\<close>

definition inc :: "counter \<Rightarrow> labels \<Rightarrow> counter" where
  "inc c l = c(l := c l + 1)"

text \<open>Modelled from the spec: the constructor \<open>Counter(name, doc, const_labels=...,
  registry=...)\<close> registers the new collector with the registry, which may reject it
  (then the constructor raises and nothing is registered), and returns a new counter.\<close>

definition Counter ::
  "env \<Rightarrow> world \<Rightarrow> string \<Rightarrow> string \<Rightarrow> labels option \<Rightarrow> pyobj \<Rightarrow> exc + (world \<times> counter)" where
  "Counter env w name doc cl reg =
     (let c = \<lparr>col_name = name, col_doc = doc, col_const_labels = cl, col_registry = reg\<rparr> in
      case Counter_raises env (registered w) c of
        Some e \<Rightarrow> Inl e
      | None \<Rightarrow> Inr (w\<lparr>registered := registered w @ [c]\<rparr>, zero_counter))"

section \<open>The class \<open>MetricsMiddleware\<close>\<close>

definition EXCLUDE_PATHS :: "string list" where
  "EXCLUDE_PATHS =
     [''/metrics'', ''/metrics/'', ''/docs'', ''/openapi.json'', ''/docs/oauth2-redirect'',
      ''/redoc'', ''/favicon.ico'']"

text \<open>The attributes of an instance.  The four counters are attributes that do not
  exist before \<open>create_metrics\<close> has assigned them (\<open>None\<close> here).\<close>

record middleware =
  asgi_callable :: asgi_app
  starlette_app :: "app_ref option"
  exclude_paths :: "string list"
  use_template_urls :: bool
  group_status_codes :: bool
  registry :: pyobj
  const_labels :: "labels option"
  metrics_created :: bool
  requests_counter :: "counter option"
  responses_counter :: "counter option"
  exceptions_counter :: "counter option"
  status_codes_counter :: "counter option"

text \<open>\<open>__init__\<close> (lines 56-90).  The world is passed through to show that the
  constructor does not touch it.\<close>

definition init ::
  "asgi_app \<Rightarrow> pyobj \<Rightarrow> string list \<Rightarrow> bool \<Rightarrow> bool \<Rightarrow> labels option \<Rightarrow> world
     \<Rightarrow> (exc + middleware) \<times> world" where
  "init app reg excl use_template grouped cl w =
     (if reg \<noteq> PyNone \<and> \<not> isinstance_Registry reg then
        (Inl (Exception (''registry must be a Registry, got: '' @
                (case reg of Other t \<Rightarrow> t | _ \<Rightarrow> ''''))), w)
      else
        (Inr \<lparr>asgi_callable = app,
              starlette_app = None,
              exclude_paths = (if excl \<noteq> [] then excl else []),
              use_template_urls = use_template,
              group_status_codes = grouped,
              registry = reg,
              const_labels = cl,
              metrics_created = False,
              requests_counter = None,
              responses_counter = None,
              exceptions_counter = None,
              status_codes_counter = None\<rparr>, w))"

text \<open>\<open>create_metrics\<close> (lines 92-131): four constructor calls in sequence, each
  assigned to its attribute; a call that raises leaves the earlier assignments and
  registrations in place and the flag unset.\<close>

definition create_metrics :: "env \<Rightarrow> middleware \<Rightarrow> world \<Rightarrow> middleware \<times> world \<times> exc option" where
  "create_metrics env self w =
    (case Counter env w ''requests_total_counter'' ''Total number of requests received''
            (const_labels self) (registry self) of
       Inl e \<Rightarrow> (self, w, Some e)
     | Inr (w1, c1) \<Rightarrow>
        let self1 = self\<lparr>requests_counter := Some c1\<rparr> in
        (case Counter env w1 ''responses_total_counter'' ''Total number of responses sent''
                (const_labels self1) (registry self1) of
           Inl e \<Rightarrow> (self1, w1, Some e)
         | Inr (w2, c2) \<Rightarrow>
            let self2 = self1\<lparr>responses_counter := Some c2\<rparr> in
            (case Counter env w2 ''exceptions_total_counter''
                    ''Total number of requested which generated an exception''
                    (const_labels self2) (registry self2) of
               Inl e \<Rightarrow> (self2, w2, Some e)
             | Inr (w3, c3) \<Rightarrow>
                let self3 = self2\<lparr>exceptions_counter := Some c3\<rparr> in
                (case Counter env w3 ''status_codes_counter''
                        ''Total number of response status codes''
                        (const_labels self3) (registry self3) of
                   Inl e \<Rightarrow> (self3, w3, Some e)
                 | Inr (w4, c4) \<Rightarrow>
                    (self3\<lparr>status_codes_counter := Some c4, metrics_created := True\<rparr>,
                     w4, None)))))"

text \<open>\<open>await send(response)\<close> on the server's \<open>send\<close>.\<close>

definition call_send :: "send_fn \<Rightarrow> world \<Rightarrow> message \<Rightarrow> world \<times> exc option" where
  "call_send send w response = (w\<lparr>sent := sent w @ [response]\<rparr>, send (sent w) response)"

text \<open>The value of the label \<open>status_code\<close> (lines 161-166): \<open>str(response["status"])\<close>,
  or its first character followed by \<open>xx\<close>.\<close>

definition status_code_label :: "bool \<Rightarrow> int \<Rightarrow> exc + string" where
  "status_code_label grouped status =
     (let status_code = str status in
      if grouped then
        (case status_code of
           [] \<Rightarrow> Inl (IndexError ''string index out of range'')
         | d # _ \<Rightarrow> Inr (d # ''xx''))
      else Inr status_code)"

text \<open>\<open>wrapped_send\<close> (lines 153-170), a closure over \<open>self\<close>, \<open>labels\<close> and \<open>send\<close>.\<close>

definition wrapped_send ::
  "send_fn \<Rightarrow> labels \<Rightarrow> middleware \<times> world \<Rightarrow> message \<Rightarrow> (middleware \<times> world) \<times> exc option" where
  "wrapped_send send labels s response =
    (case s of (self, w) \<Rightarrow>
     if msg_type response = ''http.response.start'' then
       (case msg_status response of
          None \<Rightarrow> (s, Some (KeyError ''status''))
        | Some status \<Rightarrow>
           (case status_code_label (group_status_codes self) status of
              Inl e \<Rightarrow> (s, Some e)
            | Inr lbl \<Rightarrow>
               let status_code_labels = AList.update ''status_code'' (Some lbl) labels in
               (case status_codes_counter self of
                  None \<Rightarrow> (s, Some (AttributeError ''status_codes_counter''))
                | Some sc \<Rightarrow>
                   let self1 = self\<lparr>status_codes_counter := Some (inc sc status_code_labels)\<rparr> in
                   (case responses_counter self1 of
                      None \<Rightarrow> ((self1, w), Some (AttributeError ''responses_counter''))
                    | Some rc \<Rightarrow>
                       (case call_send send w response of
                          (w', r) \<Rightarrow> ((self1\<lparr>responses_counter := Some (inc rc labels)\<rparr>, w'), r))))))
     else
       (case call_send send w response of (w', r) \<Rightarrow> ((self, w'), r)))"

text \<open>The loop of \<open>get_full_or_template_path\<close> (lines 216-220): the path of the first
  route whose match has the value 2.\<close>

fun first_full_match :: "route list \<Rightarrow> scope \<Rightarrow> string option" where
  "first_full_match [] scope = None"
| "first_full_match (r # routes) scope =
     (if Match_value (route_matches r scope) = 2 then Some (route_path r)
      else first_full_match routes scope)"

text \<open>\<open>get_full_or_template_path\<close> (lines 197-222).\<close>

definition get_full_or_template_path :: "env \<Rightarrow> middleware \<Rightarrow> scope \<Rightarrow> string" where
  "get_full_or_template_path env self scope =
    (let root_path = (case scope_root_path scope of None \<Rightarrow> [] | Some p \<Rightarrow> p);
         path = (case scope_path scope of None \<Rightarrow> [] | Some p \<Rightarrow> p);
         full_path = root_path @ path in
     if use_template_urls self then
       (case starlette_app self of
          Some app \<Rightarrow>
            (case first_full_match (app_routes env app) scope of
               Some template \<Rightarrow> template
             | None \<Rightarrow> full_path)
        | None \<Rightarrow> full_path)
     else full_path)"

text \<open>\<open>__call__\<close>, lines 134-135.\<close>

definition ensure_metrics :: "env \<Rightarrow> middleware \<Rightarrow> world \<Rightarrow> middleware \<times> world \<times> exc option" where
  "ensure_metrics env self w =
     (if \<not> metrics_created self then create_metrics env self w else (self, w, None))"

text \<open>\<open>__call__\<close>, lines 137-145.\<close>

definition capture_app :: "middleware \<Rightarrow> scope \<Rightarrow> middleware" where
  "capture_app self scope =
     (if starlette_app self = None then
        (if scope_type scope \<in> set [''lifespan'', ''http'', ''websocket'']
         then self\<lparr>starlette_app := scope_app scope\<rparr> else self)
      else self)"

text \<open>\<open>await self.asgi_callable(scope, receive, send)\<close> (lines 148 and 179): the next
  callable runs on the server's own \<open>send\<close>.\<close>

definition pass_through ::
  "middleware \<Rightarrow> world \<Rightarrow> scope \<Rightarrow> send_fn \<Rightarrow> middleware \<times> world \<times> exc option" where
  "pass_through self w scope send =
     (case interp (call_send send) (asgi_callable self scope) w of (w', r) \<Rightarrow> (self, w', r))"

text \<open>The labels of a request (lines 174-176).\<close>

definition request_labels :: "env \<Rightarrow> middleware \<Rightarrow> scope \<Rightarrow> labels" where
  "request_labels env self scope =
     [(''method'', scope_method scope), (''path'', Some (get_full_or_template_path env self scope))]"

text \<open>The body of \<open>except Exception\<close> (lines 186-193), before the \<open>raise\<close>.\<close>

definition except_body :: "labels \<Rightarrow> middleware \<Rightarrow> middleware \<times> exc option" where
  "except_body labels self =
     (case exceptions_counter self of
        None \<Rightarrow> (self, Some (AttributeError ''exceptions_counter''))
      | Some ec \<Rightarrow>
         let self1 = self\<lparr>exceptions_counter := Some (inc ec labels)\<rparr>;
             status_code_labels =
               AList.update ''status_code''
                 (Some (if group_status_codes self1 then ''5xx'' else ''500'')) labels in
         (case status_codes_counter self1 of
            None \<Rightarrow> (self1, Some (AttributeError ''status_codes_counter''))
          | Some sc \<Rightarrow>
             let self2 = self1\<lparr>status_codes_counter := Some (inc sc status_code_labels)\<rparr> in
             (case responses_counter self2 of
                None \<Rightarrow> (self2, Some (AttributeError ''responses_counter''))
              | Some rc \<Rightarrow> (self2\<lparr>responses_counter := Some (inc rc labels)\<rparr>, None))))"

text \<open>\<open>__call__\<close>, lines 182-195: the request is counted, the next callable runs on
  \<open>wrapped_send\<close>, and an exception of class \<open>Exception\<close> is counted and raised again.\<close>

definition counted_request ::
  "labels \<Rightarrow> middleware \<Rightarrow> world \<Rightarrow> scope \<Rightarrow> send_fn \<Rightarrow> middleware \<times> world \<times> exc option" where
  "counted_request labels self w scope send =
     (case requests_counter self of
        None \<Rightarrow> (self, w, Some (AttributeError ''requests_counter''))
      | Some qc \<Rightarrow>
         let self1 = self\<lparr>requests_counter := Some (inc qc labels)\<rparr> in
         (case interp (wrapped_send send labels) (asgi_callable self1 scope) (self1, w) of
            ((self2, w2), None) \<Rightarrow> (self2, w2, None)
          | ((self2, w2), Some e) \<Rightarrow>
             if isinstance_Exception e then
               (case except_body labels self2 of
                  (self3, None) \<Rightarrow> (self3, w2, Some e)
                | (self3, Some e') \<Rightarrow> (self3, w2, Some e'))
             else (self2, w2, Some e)))"

text \<open>\<open>__call__\<close> (lines 133-195).\<close>

definition call ::
  "env \<Rightarrow> middleware \<Rightarrow> world \<Rightarrow> scope \<Rightarrow> send_fn \<Rightarrow> middleware \<times> world \<times> exc option" where
  "call env self0 w0 scope send =
    (case ensure_metrics env self0 w0 of
       (self1, w1, Some e) \<Rightarrow> (self1, w1, Some e)
     | (self1, w1, None) \<Rightarrow>
        let self2 = capture_app self1 scope in
        if scope_type scope = ''lifespan'' then pass_through self2 w1 scope send
        else if scope_type scope \<in> set [''http'', ''websocket''] then
          (let labels = request_labels env self2 scope;
               path = get_full_or_template_path env self2 scope in
           if path \<in> set (exclude_paths self2) then pass_through self2 w1 scope send
           else counted_request labels self2 w1 scope send)
        else (self2, w1, None))"

section \<open>Auxiliary definitions\<close>

text \<open>The first decimal digit of a number, and the number a string of decimal digits
  denotes.\<close>

fun leading_digit :: "nat \<Rightarrow> nat" where
  "leading_digit n = (if n < 10 then n else leading_digit (n div 10))"

declare leading_digit.simps [simp del]

definition digit_val :: "char \<Rightarrow> nat" where
  "digit_val c = of_char c - 48"

definition decimal_value :: "string \<Rightarrow> nat" where
  "decimal_value s = foldl (\<lambda>a c. 10 * a + digit_val c) 0 s"

text \<open>The literal path of a request: the root path followed by the path.\<close>

definition full_path :: "scope \<Rightarrow> string" where
  "full_path scope =
     (case scope_root_path scope of None \<Rightarrow> [] | Some p \<Rightarrow> p) @
     (case scope_path scope of None \<Rightarrow> [] | Some p \<Rightarrow> p)"

text \<open>The four counter attributes exist; an instance is in order when they exist
  whenever its flag \<open>metrics_created\<close> is set.\<close>

definition metrics_exist :: "middleware \<Rightarrow> bool" where
  "metrics_exist self =
     (requests_counter self \<noteq> None \<and> responses_counter self \<noteq> None \<and>
      exceptions_counter self \<noteq> None \<and> status_codes_counter self \<noteq> None)"

definition metrics_ok :: "middleware \<Rightarrow> bool" where
  "metrics_ok self = (if metrics_created self then metrics_exist self else True)"

text \<open>The four collectors of an instance, in the order in which \<open>create_metrics\<close>
  constructs them.\<close>

definition metric_collectors :: "middleware \<Rightarrow> collector list" where
  "metric_collectors self =
     [\<lparr>col_name = ''requests_total_counter'', col_doc = ''Total number of requests received'',
       col_const_labels = const_labels self, col_registry = registry self\<rparr>,
      \<lparr>col_name = ''responses_total_counter'', col_doc = ''Total number of responses sent'',
       col_const_labels = const_labels self, col_registry = registry self\<rparr>,
      \<lparr>col_name = ''exceptions_total_counter'',
       col_doc = ''Total number of requested which generated an exception'',
       col_const_labels = const_labels self, col_registry = registry self\<rparr>,
      \<lparr>col_name = ''status_codes_counter'', col_doc = ''Total number of response status codes'',
       col_const_labels = const_labels self, col_registry = registry self\<rparr>]"

text \<open>The \<open>http.response.start\<close> messages among the messages sent, the label set
  \<open>wrapped_send\<close> counts such a message under, and the one the \<open>except\<close> block counts
  under.\<close>

definition response_starts :: "message list \<Rightarrow> message list" where
  "response_starts ms = filter (\<lambda>m. msg_type m = ''http.response.start'') ms"

definition start_labels :: "bool \<Rightarrow> labels \<Rightarrow> message \<Rightarrow> labels" where
  "start_labels grouped labels m =
     (case msg_status m of
        Some code \<Rightarrow> AList.update ''status_code'' (Some (if grouped then hd (str code) # ''xx'' else str code)) labels
      | None \<Rightarrow> labels)"

definition failure_labels :: "bool \<Rightarrow> labels \<Rightarrow> labels" where
  "failure_labels grouped labels =
     AList.update ''status_code'' (Some (if grouped then ''5xx'' else ''500'')) labels"

text \<open>The outcome is an exception of class \<open>Exception\<close>.\<close>

definition raised_Exception :: "exc option \<Rightarrow> bool" where
  "raised_Exception r = (case r of None \<Rightarrow> False | Some e \<Rightarrow> isinstance_Exception e)"

text \<open>An instance without the two counters \<open>wrapped_send\<close> assigns.\<close>

definition frame :: "middleware \<Rightarrow> middleware" where
  "frame self = self\<lparr>status_codes_counter := None, responses_counter := None\<rparr>"

text \<open>The invariant of a run of the next callable on \<open>wrapped_send\<close>, from a state with
  the counters \<open>sc\<close> and \<open>rc\<close> and the world \<open>w\<close>: each \<open>http.response.start\<close> handed to
  the server since has a status and was counted once in each of the two counters.\<close>

definition counted :: "labels \<Rightarrow> counter \<Rightarrow> counter \<Rightarrow> world \<Rightarrow> bool \<Rightarrow> middleware \<times> world \<Rightarrow> bool" where
  "counted labels sc rc w g s =
     (group_status_codes (fst s) = g \<and>
      (\<exists>ms. sent (snd s) = sent w @ ms \<and>
         list_all (\<lambda>m. msg_status m \<noteq> None) (response_starts ms) \<and>
         status_codes_counter (fst s) =
           Some (fold (\<lambda>m c. inc c (start_labels g labels m)) (response_starts ms) sc) \<and>
         responses_counter (fst s) =
           Some (fold (\<lambda>m c. inc c labels) (response_starts ms) rc)))"

section \<open>An example application\<close>

text \<open>A Starlette application with two routes, served through the middleware; the
  concrete inputs of the examples below.\<close>

definition users_route :: route where
  "users_route =
     \<lparr>route_path = ''/users'',
      route_matches = (\<lambda>s. if scope_path s = Some ''/users''
                            then (if scope_method s = Some ''POST'' then FULL else PARTIAL)
                            else NONE)\<rparr>"

definition user_route :: route where
  "user_route =
     \<lparr>route_path = ''/users/{user_id}'',
      route_matches = (\<lambda>s. case scope_path s of
                            None \<Rightarrow> NONE
                          | Some p \<Rightarrow>
                             if take 7 p = ''/users/'' \<and> 7 < length p
                             then (if scope_method s = Some ''GET'' then FULL else PARTIAL)
                             else NONE)\<rparr>"

text \<open>A registry that rejects a second collector of the same name, and the routes of
  the application object 7.\<close>

definition example_env :: env where
  "example_env =
     \<lparr>Counter_raises =
        (\<lambda>cs c. if (col_name c, col_registry c) \<in> set (map (\<lambda>d. (col_name d, col_registry d)) cs)
                 then Some (Exception ''collector already registered'') else None),
      app_routes = (\<lambda>a. if a = 7 then [users_route, user_route] else [])\<rparr>"

definition response_start :: "int \<Rightarrow> message" where
  "response_start code =
     \<lparr>msg_type = ''http.response.start'', msg_status = Some code, msg_rest = ''headers''\<rparr>"

definition response_body :: message where
  "response_body = \<lparr>msg_type = ''http.response.body'', msg_status = None, msg_rest = ''body''\<rparr>"

text \<open>The application raises on \<open>/boom\<close>, is cancelled on \<open>/cancel\<close>, closes a
  websocket without a response, and answers every other request with 404.\<close>

definition example_app :: asgi_app where
  "example_app scope =
     (if scope_path scope = Some ''/boom'' then Raise (Exception ''boom'')
      else if scope_path scope = Some ''/cancel'' then Raise (BaseException ''CancelledError'')
      else if scope_type scope = ''websocket'' then Return
      else Await_send (response_start 404)
             (\<lambda>r. case r of
                     Some e \<Rightarrow> Raise e
                   | None \<Rightarrow> Await_send response_body
                       (\<lambda>r. case r of Some e \<Rightarrow> Raise e | None \<Rightarrow> Return)))"

definition send_ok :: send_fn where
  "send_ok history m = None"

definition example_world :: world where
  "example_world = \<lparr>registered = [], sent = []\<rparr>"

text \<open>The instance \<open>MetricsMiddleware(example_app, registry, group_status_codes=grouped)\<close>
  as constructed, after its metrics were created, and after it captured the
  application object.\<close>

definition example_mw :: "bool \<Rightarrow> middleware" where
  "example_mw grouped =
     \<lparr>asgi_callable = example_app, starlette_app = None, exclude_paths = EXCLUDE_PATHS,
      use_template_urls = True, group_status_codes = grouped, registry = Registry 0,
      const_labels = None, metrics_created = False, requests_counter = None,
      responses_counter = None, exceptions_counter = None, status_codes_counter = None\<rparr>"

definition created_mw :: "bool \<Rightarrow> middleware" where
  "created_mw grouped =
     (example_mw grouped)\<lparr>requests_counter := Some zero_counter,
        responses_counter := Some zero_counter, exceptions_counter := Some zero_counter,
        status_codes_counter := Some zero_counter, metrics_created := True\<rparr>"

definition served_mw :: "bool \<Rightarrow> middleware" where
  "served_mw grouped = (created_mw grouped)\<lparr>starlette_app := Some 7\<rparr>"

definition created_world :: world where
  "created_world = \<lparr>registered = metric_collectors (example_mw False), sent = []\<rparr>"

definition http_scope :: "string \<Rightarrow> scope" where
  "http_scope p =
     \<lparr>scope_type = ''http'', scope_method = Some ''GET'', scope_path = Some p,
      scope_root_path = Some [], scope_app = Some 7\<rparr>"

definition ws_scope :: scope where
  "ws_scope =
     \<lparr>scope_type = ''websocket'', scope_method = None, scope_path = Some ''/ws'',
      scope_root_path = Some [], scope_app = Some 7\<rparr>"

definition other_scope :: scope where
  "other_scope =
     \<lparr>scope_type = ''unknown'', scope_method = None, scope_path = Some ''/users/42'',
      scope_root_path = None, scope_app = Some 7\<rparr>"

definition get_labels :: "string \<Rightarrow> labels" where
  "get_labels p = [(''method'', Some ''GET''), (''path'', Some p)]"

definition ws_labels :: labels where
  "ws_labels = [(''method'', None), (''path'', Some ''/ws'')]"

section \<open>Lemmas\<close>

subsection \<open>Python strings\<close>

lemma str_nat_nonempty: "str_nat n \<noteq> []"
  by (subst str_nat.simps) simp

lemma str_nonempty: "str i \<noteq> []"
  by (simp add: str_def str_nat_nonempty)

lemma hd_str_nat: "hd (str_nat n) = digit_char (leading_digit n)"
proof (induction n rule: str_nat.induct)
  case (1 n)
  show ?case
  proof (cases "n < 10")
    case True
    then show ?thesis by (subst str_nat.simps, subst leading_digit.simps) simp
  next
    case False
    with 1 show ?thesis
      by (subst str_nat.simps, subst leading_digit.simps) (simp add: str_nat_nonempty)
  qed
qed

lemma digit_val_digit_char: "d < 10 \<Longrightarrow> digit_val (digit_char d) = d"
proof -
  assume "d < 10"
  then have "d \<in> {0,1,2,3,4,5,6,7,8,9}" by auto
  then show ?thesis by (auto simp: digit_val_def digit_char_def)
qed

lemma decimal_value_str_nat: "decimal_value (str_nat n) = n"
proof (induction n rule: str_nat.induct)
  case (1 n)
  show ?case
  proof (cases "n < 10")
    case True
    then show ?thesis by (subst str_nat.simps) (simp add: decimal_value_def digit_val_digit_char)
  next
    case False
    with 1 have "decimal_value (str_nat (n div 10)) = n div 10" by simp
    with False show ?thesis
      by (subst str_nat.simps) (simp add: decimal_value_def digit_val_digit_char)
  qed
qed

lemma digit_char_digit: "d < 10 \<Longrightarrow> digit_char d \<in> set ''0123456789''"
proof -
  assume "d < 10"
  then have "d \<in> {0,1,2,3,4,5,6,7,8,9}" by auto
  then show ?thesis by (auto simp: digit_char_def)
qed

lemma str_nat_digits: "list_all (\<lambda>c. c \<in> set ''0123456789'') (str_nat n)"
proof (induction n rule: str_nat.induct)
  case (1 n)
  show ?case
  proof (cases "n < 10")
    case True
    then show ?thesis using digit_char_digit[of n] by (subst str_nat.simps) simp
  next
    case False
    with 1 have "list_all (\<lambda>c. c \<in> set ''0123456789'') (str_nat (n div 10))" by simp
    moreover have "digit_char (n mod 10) \<in> set ''0123456789''"
      by (rule digit_char_digit) simp
    ultimately show ?thesis using False by (subst str_nat.simps) simp
  qed
qed

lemma status_code_label_eq:
  "status_code_label g code = Inr (if g then hd (str code) # ''xx'' else str code)"
  using str_nonempty[of code]
  by (cases "str code") (simp_all add: status_code_label_def Let_def)

subsection \<open>Runs of the next callable\<close>

lemma interp_invariant:
  assumes "\<And>s m. P s \<Longrightarrow> P (fst (step s m))" and "P s"
  shows "P (fst (interp step h s))"
  using assms(2)
proof (induction h arbitrary: s)
  case Return
  then show ?case by simp
next
  case (Raise e)
  then show ?case by simp
next
  case (Await_send m k)
  obtain s' r where st: "step s m = (s', r)" by (cases "step s m")
  have "P s'" using assms(1)[OF Await_send.prems, of m] st by simp
  then have "P (fst (interp step (k r) s'))"
    using Await_send.IH[of "k r" s'] by blast
  then show ?case using st by simp
qed

lemma interp_call_send_registered:
  "registered (fst (interp (call_send send) h w)) = registered w"
proof -
  let ?P = "\<lambda>s. registered s = registered w"
  have "?P (fst (interp (call_send send) h w))"
    by (rule interp_invariant) (simp_all add: call_send_def)
  then show ?thesis .
qed

lemma pass_through_eq:
  "pass_through self w scope send =
     (self, fst (interp (call_send send) (asgi_callable self scope) w),
      snd (interp (call_send send) (asgi_callable self scope) w))"
  by (simp add: pass_through_def split: prod.splits)

lemma wrapped_send_frame:
  "frame (fst (fst (wrapped_send send labels (self, w) m))) = frame self"
  by (simp add: wrapped_send_def frame_def call_send_def Let_def status_code_label_eq
      split: option.splits sum.splits prod.splits)

lemma wrapped_send_registered:
  "registered (snd (fst (wrapped_send send labels (self, w) m))) = registered w"
  by (simp add: wrapped_send_def call_send_def Let_def status_code_label_eq
      split: option.splits sum.splits prod.splits)

lemma interp_wrapped_frame:
  "frame (fst (fst (interp (wrapped_send send labels) h (self, w)))) = frame self"
proof -
  let ?P = "\<lambda>s. frame (fst s) = frame self"
  have "?P (fst (interp (wrapped_send send labels) h (self, w)))"
  proof (rule interp_invariant)
    fix s :: "middleware \<times> world" and m
    assume "?P s"
    then show "?P (fst (wrapped_send send labels s m))"
      using wrapped_send_frame[of send labels "fst s" "snd s" m] by simp
  qed simp
  then show ?thesis .
qed

lemma interp_wrapped_registered:
  "registered (snd (fst (interp (wrapped_send send labels) h (self, w)))) = registered w"
proof -
  let ?P = "\<lambda>s. registered (snd s) = registered w"
  have "?P (fst (interp (wrapped_send send labels) h (self, w)))"
  proof (rule interp_invariant)
    fix s :: "middleware \<times> world" and m
    assume "?P s"
    then show "?P (fst (wrapped_send send labels s m))"
      using wrapped_send_registered[of send labels "fst s" "snd s" m] by simp
  qed simp
  then show ?thesis .
qed

lemma frame_fields:
  assumes "frame a = frame b"
  shows "requests_counter a = requests_counter b" and "exceptions_counter a = exceptions_counter b"
    and "starlette_app a = starlette_app b" and "group_status_codes a = group_status_codes b"
    and "metrics_created a = metrics_created b" and "asgi_callable a = asgi_callable b"
    and "exclude_paths a = exclude_paths b" and "use_template_urls a = use_template_urls b"
proof -
  have "requests_counter (frame a) = requests_counter (frame b)"
    "exceptions_counter (frame a) = exceptions_counter (frame b)"
    "starlette_app (frame a) = starlette_app (frame b)"
    "group_status_codes (frame a) = group_status_codes (frame b)"
    "metrics_created (frame a) = metrics_created (frame b)"
    "asgi_callable (frame a) = asgi_callable (frame b)"
    "exclude_paths (frame a) = exclude_paths (frame b)"
    "use_template_urls (frame a) = use_template_urls (frame b)"
    using assms by simp_all
  then show "requests_counter a = requests_counter b" and "exceptions_counter a = exceptions_counter b"
    and "starlette_app a = starlette_app b" and "group_status_codes a = group_status_codes b"
    and "metrics_created a = metrics_created b" and "asgi_callable a = asgi_callable b"
    and "exclude_paths a = exclude_paths b" and "use_template_urls a = use_template_urls b"
    by (simp_all add: frame_def)
qed

lemma wrapped_send_counted:
  assumes "counted labels sc rc w g s"
  shows "counted labels sc rc w g (fst (wrapped_send send labels s m))"
proof -
  obtain self w1 where s: "s = (self, w1)" by (cases s)
  from assms s obtain ms where g: "group_status_codes self = g"
    and ms: "sent w1 = sent w @ ms"
    and al: "list_all (\<lambda>m. msg_status m \<noteq> None) (response_starts ms)"
    and st: "status_codes_counter self =
           Some (fold (\<lambda>m c. inc c (start_labels g labels m)) (response_starts ms) sc)"
    and rs: "responses_counter self = Some (fold (\<lambda>m c. inc c labels) (response_starts ms) rc)"
    by (auto simp: counted_def)
  show ?thesis
  proof (cases "msg_type m = ''http.response.start''")
    case False
    then have "response_starts (ms @ [m]) = response_starts ms"
      by (simp add: response_starts_def)
    with False g ms st rs al show ?thesis
      unfolding counted_def s
      by (simp add: wrapped_send_def call_send_def)
  next
    case True
    show ?thesis
    proof (cases "msg_status m")
      case None
      with True assms show ?thesis
        unfolding s by (simp add: wrapped_send_def)
    next
      case (Some code)
      from True have rsm: "response_starts (ms @ [m]) = response_starts ms @ [m]"
        by (simp add: response_starts_def)
      have "sent (snd (fst (wrapped_send send labels s m))) = sent w @ (ms @ [m])"
        using True Some g ms st rs unfolding s
        by (simp add: wrapped_send_def call_send_def status_code_label_eq Let_def)
      moreover have "status_codes_counter (fst (fst (wrapped_send send labels s m))) =
           Some (fold (\<lambda>m c. inc c (start_labels g labels m)) (response_starts (ms @ [m])) sc)"
        using True Some g ms st rs unfolding s rsm
        by (simp add: wrapped_send_def call_send_def status_code_label_eq Let_def start_labels_def)
      moreover have "responses_counter (fst (fst (wrapped_send send labels s m))) =
           Some (fold (\<lambda>m c. inc c labels) (response_starts (ms @ [m])) rc)"
        using True Some g ms st rs unfolding s rsm
        by (simp add: wrapped_send_def call_send_def status_code_label_eq Let_def)
      moreover have "list_all (\<lambda>m. msg_status m \<noteq> None) (response_starts (ms @ [m]))"
        using al Some unfolding rsm by simp
      moreover have "group_status_codes (fst (fst (wrapped_send send labels s m))) = g"
        using True Some g ms st rs unfolding s
        by (simp add: wrapped_send_def call_send_def status_code_label_eq Let_def)
      ultimately show ?thesis unfolding counted_def by blast
    qed
  qed
qed

lemma interp_wrapped_counted:
  assumes "status_codes_counter self = Some sc" and "responses_counter self = Some rc"
  shows "counted labels sc rc w (group_status_codes self)
           (fst (interp (wrapped_send send labels) h (self, w)))"
proof (rule interp_invariant)
  show "counted labels sc rc w (group_status_codes self) (self, w)"
    using assms by (simp add: counted_def response_starts_def)
qed (rule wrapped_send_counted)

subsection \<open>Metric creation\<close>

lemma Counter_Inr:
  "Counter env w name doc cl reg = Inr (w', c) \<Longrightarrow>
     c = zero_counter \<and>
     w' = w\<lparr>registered := registered w @
            [\<lparr>col_name = name, col_doc = doc, col_const_labels = cl, col_registry = reg\<rparr>]\<rparr>"
  by (auto simp: Counter_def Let_def split: option.splits)

lemma create_metrics_success:
  assumes "create_metrics env self w = (self1, w1, None)"
  shows "self1 = self\<lparr>requests_counter := Some zero_counter,
                      responses_counter := Some zero_counter,
                      exceptions_counter := Some zero_counter,
                      status_codes_counter := Some zero_counter,
                      metrics_created := True\<rparr>"
    and "w1 = w\<lparr>registered := registered w @ metric_collectors self\<rparr>"
  using assms
  by (auto simp: create_metrics_def Let_def metric_collectors_def
      split: sum.splits prod.splits dest!: Counter_Inr)

lemma create_metrics_frame:
  "create_metrics env self w = (self1, w1, r) \<Longrightarrow>
     starlette_app self1 = starlette_app self \<and> asgi_callable self1 = asgi_callable self \<and>
     exclude_paths self1 = exclude_paths self \<and> use_template_urls self1 = use_template_urls self \<and>
     group_status_codes self1 = group_status_codes self \<and> sent w1 = sent w"
  by (auto simp: create_metrics_def Let_def
      split: sum.splits prod.splits dest!: Counter_Inr)

lemma create_metrics_flag:
  "create_metrics env self w = (self1, w1, Some e) \<Longrightarrow> metrics_created self1 = metrics_created self"
  by (auto simp: create_metrics_def Let_def split: sum.splits prod.splits)

lemma ensure_metrics_frame:
  "ensure_metrics env self w = (self1, w1, r) \<Longrightarrow>
     starlette_app self1 = starlette_app self \<and> asgi_callable self1 = asgi_callable self \<and>
     exclude_paths self1 = exclude_paths self \<and> use_template_urls self1 = use_template_urls self \<and>
     group_status_codes self1 = group_status_codes self \<and> sent w1 = sent w"
  using create_metrics_frame[of env self w self1 w1 r]
  by (auto simp: ensure_metrics_def split: if_splits)

lemma ensure_metrics_success:
  assumes "metrics_ok self" and "ensure_metrics env self w = (self1, w1, None)"
  shows "metrics_exist self1" and "metrics_created self1"
  using assms create_metrics_success(1)[of env self w self1 w1]
  by (auto simp: ensure_metrics_def metrics_ok_def metrics_exist_def split: if_splits)

lemma ensure_metrics_created:
  "metrics_created self \<Longrightarrow> ensure_metrics env self w = (self, w, None)"
  by (simp add: ensure_metrics_def)

lemma ensure_metrics_asgi_callable:
  "ensure_metrics env (self\<lparr>asgi_callable := app\<rparr>) w =
     (case ensure_metrics env self w of (s, w', r) \<Rightarrow> (s\<lparr>asgi_callable := app\<rparr>, w', r))"
  by (simp add: ensure_metrics_def create_metrics_def Let_def split: sum.splits prod.splits)

lemma init_ok:
  "reg = PyNone \<or> isinstance_Registry reg \<Longrightarrow>
     init app reg excl t g cl w =
       (Inr \<lparr>asgi_callable = app, starlette_app = None, exclude_paths = excl,
              use_template_urls = t, group_status_codes = g, registry = reg,
              const_labels = cl, metrics_created = False, requests_counter = None,
              responses_counter = None, exceptions_counter = None,
              status_codes_counter = None\<rparr>, w)"
  by (auto simp: init_def)

subsection \<open>The request path of \<open>__call__\<close>\<close>

lemma capture_app_fields:
  "requests_counter (capture_app self scope) = requests_counter self"
  "responses_counter (capture_app self scope) = responses_counter self"
  "exceptions_counter (capture_app self scope) = exceptions_counter self"
  "status_codes_counter (capture_app self scope) = status_codes_counter self"
  "group_status_codes (capture_app self scope) = group_status_codes self"
  "asgi_callable (capture_app self scope) = asgi_callable self"
  "exclude_paths (capture_app self scope) = exclude_paths self"
  "use_template_urls (capture_app self scope) = use_template_urls self"
  "metrics_created (capture_app self scope) = metrics_created self"
  by (simp_all add: capture_app_def)

lemma capture_app_app:
  "starlette_app (capture_app self scope) =
     (if starlette_app self = None \<and> scope_type scope \<in> set [''lifespan'', ''http'', ''websocket'']
      then scope_app scope else starlette_app self)"
  by (simp add: capture_app_def)

lemma except_body_exist:
  assumes "exceptions_counter self = Some ec" and "status_codes_counter self = Some sc"
    and "responses_counter self = Some rc"
  shows "except_body labels self =
    (self\<lparr>exceptions_counter := Some (inc ec labels),
          status_codes_counter := Some (inc sc (AList.update ''status_code''
             (Some (if group_status_codes self then ''5xx'' else ''500'')) labels)),
          responses_counter := Some (inc rc labels)\<rparr>, None)"
  using assms by (simp add: except_body_def Let_def)

lemma except_body_frame:
  "starlette_app (fst (except_body labels self)) = starlette_app self"
  "metrics_created (fst (except_body labels self)) = metrics_created self"
  by (simp_all add: except_body_def Let_def split: option.splits)

lemma counted_request_run:
  assumes "requests_counter self = Some qc"
    and "interp (wrapped_send send labels) (asgi_callable self scope)
           (self\<lparr>requests_counter := Some (inc qc labels)\<rparr>, w) = ((self4, w4), r)"
  shows "counted_request labels self w scope send =
     (case r of
        None \<Rightarrow> (self4, w4, None)
      | Some e \<Rightarrow>
         if isinstance_Exception e then
           (case except_body labels self4 of
              (self5, None) \<Rightarrow> (self5, w4, Some e)
            | (self5, Some e') \<Rightarrow> (self5, w4, Some e'))
         else (self4, w4, Some e))"
  using assms by (simp add: counted_request_def Let_def split: option.splits)

lemma counted_request_result:
  assumes qc: "requests_counter self = Some qc" and rc: "responses_counter self = Some rc"
    and sc: "status_codes_counter self = Some sc" and ec: "exceptions_counter self = Some ec"
    and res: "counted_request labels self w scope send = (self', w', r)"
  shows "requests_counter self' = Some (inc qc labels)"
    and "exceptions_counter self' = Some (if raised_Exception r then inc ec labels else ec)"
    and "\<exists>ms. sent w' = sent w @ ms \<and>
           list_all (\<lambda>m. msg_status m \<noteq> None) (response_starts ms) \<and>
           responses_counter self' =
             Some ((if raised_Exception r then (\<lambda>c. inc c labels) else id)
                     (fold (\<lambda>m c. inc c labels) (response_starts ms) rc)) \<and>
           status_codes_counter self' =
             Some ((if raised_Exception r
                    then (\<lambda>c. inc c (failure_labels (group_status_codes self) labels)) else id)
                     (fold (\<lambda>m c. inc c (start_labels (group_status_codes self) labels m))
                        (response_starts ms) sc))"
    and "starlette_app self' = starlette_app self"
    and "metrics_created self' = metrics_created self"
    and "registered w' = registered w"
proof -
  let ?self3 = "self\<lparr>requests_counter := Some (inc qc labels)\<rparr>"
  let ?run = "interp (wrapped_send send labels) (asgi_callable self scope) (?self3, w)"
  obtain self4 w4 r4 where run: "?run = ((self4, w4), r4)"
    by (cases ?run) auto
  have fr: "frame self4 = frame ?self3"
    using interp_wrapped_frame[of send labels "asgi_callable self scope" ?self3 w] run by simp
  have reg4: "registered w4 = registered w"
    using interp_wrapped_registered[of send labels "asgi_callable self scope" ?self3 w] run by simp
  have cnt: "counted labels sc rc w (group_status_codes ?self3) (fst ?run)"
    by (rule interp_wrapped_counted) (simp_all add: sc rc)
  then obtain ms where ms: "sent w4 = sent w @ ms"
    and al: "list_all (\<lambda>m. msg_status m \<noteq> None) (response_starts ms)"
    and sc4: "status_codes_counter self4 =
           Some (fold (\<lambda>m c. inc c (start_labels (group_status_codes self) labels m))
                        (response_starts ms) sc)"
    and rc4: "responses_counter self4 = Some (fold (\<lambda>m c. inc c labels) (response_starts ms) rc)"
    using run by (auto simp: counted_def)
  have q4: "requests_counter self4 = Some (inc qc labels)"
    and e4: "exceptions_counter self4 = Some ec"
    and a4: "starlette_app self4 = starlette_app self"
    and g4: "group_status_codes self4 = group_status_codes self"
    and m4: "metrics_created self4 = metrics_created self"
    using frame_fields[OF fr] ec by simp_all
  have result: "(self', w', r) =
     (if raised_Exception r4
      then (self4\<lparr>exceptions_counter := Some (inc ec labels),
                  status_codes_counter := Some (inc (fold (\<lambda>m c. inc c (start_labels (group_status_codes self) labels m))
                        (response_starts ms) sc) (failure_labels (group_status_codes self) labels)),
                  responses_counter := Some (inc (fold (\<lambda>m c. inc c labels) (response_starts ms) rc) labels)\<rparr>, w4, r4)
      else (self4, w4, r4))"
    using counted_request_run[OF qc run] res except_body_exist[OF e4 sc4 rc4, of labels] g4
    by (auto simp: raised_Exception_def failure_labels_def split: option.splits)
  show "requests_counter self' = Some (inc qc labels)"
    using result q4 by (auto split: if_splits)
  show "exceptions_counter self' = Some (if raised_Exception r then inc ec labels else ec)"
    using result e4 by (auto split: if_splits)
  show "starlette_app self' = starlette_app self"
    using result a4 by (auto split: if_splits)
  show "metrics_created self' = metrics_created self"
    using result m4 by (auto split: if_splits)
  show "registered w' = registered w"
    using result reg4 by (auto split: if_splits)
  show "\<exists>ms. sent w' = sent w @ ms \<and>
           list_all (\<lambda>m. msg_status m \<noteq> None) (response_starts ms) \<and>
           responses_counter self' =
             Some ((if raised_Exception r then (\<lambda>c. inc c labels) else id)
                     (fold (\<lambda>m c. inc c labels) (response_starts ms) rc)) \<and>
           status_codes_counter self' =
             Some ((if raised_Exception r
                    then (\<lambda>c. inc c (failure_labels (group_status_codes self) labels)) else id)
                     (fold (\<lambda>m c. inc c (start_labels (group_status_codes self) labels m))
                        (response_starts ms) sc))"
    using result ms al sc4 rc4 by (intro exI[of _ ms]) (auto split: if_splits)
qed

lemma counted_request_frame:
  "starlette_app (fst (counted_request labels self w scope send)) = starlette_app self"
  "metrics_created (fst (counted_request labels self w scope send)) = metrics_created self"
  "registered (fst (snd (counted_request labels self w scope send))) = registered w"
proof -
  show "starlette_app (fst (counted_request labels self w scope send)) = starlette_app self"
  proof (cases "requests_counter self")
    case None
    then show ?thesis by (simp add: counted_request_def)
  next
    case (Some qc)
    let ?self3 = "self\<lparr>requests_counter := Some (inc qc labels)\<rparr>"
    let ?run = "interp (wrapped_send send labels) (asgi_callable self scope) (?self3, w)"
    obtain self4 w4 r4 where run: "?run = ((self4, w4), r4)" by (cases ?run) auto
    have fr: "frame self4 = frame ?self3"
      using interp_wrapped_frame[of send labels "asgi_callable self scope" ?self3 w] run by simp
    have "starlette_app self4 = starlette_app self" using frame_fields(3)[OF fr] by simp
    then show ?thesis
      using counted_request_run[OF Some run] except_body_frame(1)[of labels self4]
      by (auto split: option.splits prod.splits)
  qed
  show "metrics_created (fst (counted_request labels self w scope send)) = metrics_created self"
  proof (cases "requests_counter self")
    case None
    then show ?thesis by (simp add: counted_request_def)
  next
    case (Some qc)
    let ?self3 = "self\<lparr>requests_counter := Some (inc qc labels)\<rparr>"
    let ?run = "interp (wrapped_send send labels) (asgi_callable self scope) (?self3, w)"
    obtain self4 w4 r4 where run: "?run = ((self4, w4), r4)" by (cases ?run) auto
    have fr: "frame self4 = frame ?self3"
      using interp_wrapped_frame[of send labels "asgi_callable self scope" ?self3 w] run by simp
    have "metrics_created self4 = metrics_created self" using frame_fields(5)[OF fr] by simp
    then show ?thesis
      using counted_request_run[OF Some run] except_body_frame(2)[of labels self4]
      by (auto split: option.splits prod.splits)
  qed
  show "registered (fst (snd (counted_request labels self w scope send))) = registered w"
  proof (cases "requests_counter self")
    case None
    then show ?thesis by (simp add: counted_request_def)
  next
    case (Some qc)
    let ?self3 = "self\<lparr>requests_counter := Some (inc qc labels)\<rparr>"
    let ?run = "interp (wrapped_send send labels) (asgi_callable self scope) (?self3, w)"
    obtain self4 w4 r4 where run: "?run = ((self4, w4), r4)" by (cases ?run) auto
    have "registered w4 = registered w"
      using interp_wrapped_registered[of send labels "asgi_callable self scope" ?self3 w] run by simp
    then show ?thesis
      using counted_request_run[OF Some run]
      by (auto split: option.splits prod.splits)
  qed
qed

lemma call_counted_request:
  assumes "ensure_metrics env self0 w0 = (self1, w1, None)"
    and "scope_type scope \<in> set [''http'', ''websocket'']"
    and "get_full_or_template_path env (capture_app self1 scope) scope
           \<notin> set (exclude_paths (capture_app self1 scope))"
  shows "call env self0 w0 scope send =
     counted_request (request_labels env (capture_app self1 scope) scope)
       (capture_app self1 scope) w1 scope send"
  using assms by (auto simp: call_def Let_def)

lemma call_after_ensure:
  assumes "ensure_metrics env self0 w0 = (self1, w1, r)"
  shows "starlette_app (fst (call env self0 w0 scope send)) =
           (if r = None then starlette_app (capture_app self1 scope) else starlette_app self1)"
    and "metrics_created (fst (call env self0 w0 scope send)) = metrics_created self1"
    and "registered (fst (snd (call env self0 w0 scope send))) = registered w1"
proof -
  show "starlette_app (fst (call env self0 w0 scope send)) =
           (if r = None then starlette_app (capture_app self1 scope) else starlette_app self1)"
    using assms
    by (cases r) (simp_all add: call_def Let_def pass_through_eq counted_request_frame)
  show "metrics_created (fst (call env self0 w0 scope send)) = metrics_created self1"
    using assms
    by (cases r) (simp_all add: call_def Let_def pass_through_eq counted_request_frame capture_app_fields)
  show "registered (fst (snd (call env self0 w0 scope send))) = registered w1"
    using assms
    by (cases r) (simp_all add: call_def Let_def pass_through_eq counted_request_frame
        interp_call_send_registered)
qed

lemma counted_request_metrics_exist:
  assumes "metrics_exist self"
  shows "metrics_exist (fst (counted_request labels self w scope send))"
proof -
  from assms obtain qc rc sc ec where c: "requests_counter self = Some qc"
    "responses_counter self = Some rc" "status_codes_counter self = Some sc"
    "exceptions_counter self = Some ec"
    by (auto simp: metrics_exist_def)
  obtain self' w' r where res: "counted_request labels self w scope send = (self', w', r)"
    by (cases "counted_request labels self w scope send") auto
  from counted_request_result(1,2,3)[OF c res] show ?thesis
    unfolding res by (auto simp: metrics_exist_def)
qed

lemma call_metrics_ok:
  assumes "metrics_ok self"
  shows "metrics_ok (fst (call env self w scope send))"
proof -
  obtain self1 w1 r where ens: "ensure_metrics env self w = (self1, w1, r)"
    by (cases "ensure_metrics env self w") auto
  show ?thesis
  proof (cases r)
    case (Some e)
    with ens have n: "\<not> metrics_created self" and cm: "create_metrics env self w = (self1, w1, Some e)"
      by (auto simp: ensure_metrics_def split: if_splits)
    from create_metrics_flag[OF cm] n have "\<not> metrics_created self1" by simp
    then show ?thesis
      using call_after_ensure(2)[OF ens, of scope send] by (simp add: metrics_ok_def)
  next
    case None
    with ens have e: "ensure_metrics env self w = (self1, w1, None)" by simp
    from ensure_metrics_success(1)[OF assms e] have "metrics_exist self1" .
    then have x: "metrics_exist (capture_app self1 scope)"
      by (simp add: metrics_exist_def capture_app_fields)
    have "metrics_exist (fst (call env self w scope send))"
      using e x counted_request_metrics_exist[OF x]
      by (simp add: call_def Let_def pass_through_eq)
    then show ?thesis by (simp add: metrics_ok_def)
  qed
qed

subsection \<open>Route matching\<close>

lemma Match_value_2: "Match_value m = 2 \<longleftrightarrow> m = FULL"
  by (cases m) simp_all

lemma first_full_match_none:
  "(\<forall>r \<in> set rs. route_matches r scope \<noteq> FULL) \<Longrightarrow> first_full_match rs scope = None"
  by (induction rs) (simp_all add: Match_value_2)

lemma first_full_match_first:
  "(\<forall>r' \<in> set rs1. route_matches r' scope \<noteq> FULL) \<Longrightarrow> route_matches r scope = FULL \<Longrightarrow>
     first_full_match (rs1 @ r # rs2) scope = Some (route_path r)"
  by (induction rs1) (simp_all add: Match_value_2)

subsection \<open>The example application\<close>

lemma str_404: "str 404 = ''404''"
  by (simp add: str_def str_nat.simps digit_char_def)

lemma metrics_ok_example: "metrics_ok (example_mw g)"
  by (simp add: metrics_ok_def example_mw_def)

lemma ensure_metrics_example:
  "ensure_metrics example_env (example_mw g) example_world = (created_mw g, created_world, None)"
  by (simp add: ensure_metrics_def create_metrics_def Counter_def example_env_def example_mw_def
      example_world_def created_mw_def created_world_def metric_collectors_def Let_def)

lemma created_mw_counters:
  "requests_counter (created_mw g) = Some zero_counter"
  "responses_counter (created_mw g) = Some zero_counter"
  "exceptions_counter (created_mw g) = Some zero_counter"
  "status_codes_counter (created_mw g) = Some zero_counter"
  by (simp_all add: created_mw_def)

lemma capture_app_example:
  "capture_app (created_mw g) (http_scope p) = served_mw g"
  "capture_app (created_mw g) ws_scope = served_mw g"
  by (simp_all add: capture_app_def created_mw_def example_mw_def served_mw_def http_scope_def
      ws_scope_def)

lemma path_example:
  "get_full_or_template_path example_env (served_mw g) (http_scope ''/boom'') = ''/boom''"
  "get_full_or_template_path example_env (served_mw g) (http_scope ''/cancel'') = ''/cancel''"
  "get_full_or_template_path example_env (served_mw g) (http_scope ''/metrics'') = ''/metrics''"
  "get_full_or_template_path example_env (served_mw g) (http_scope ''/users/42'') = ''/users/{user_id}''"
  "get_full_or_template_path example_env (served_mw g) ws_scope = ''/ws''"
  by (simp_all add: get_full_or_template_path_def served_mw_def created_mw_def example_mw_def
      http_scope_def ws_scope_def example_env_def users_route_def user_route_def Let_def)

lemma labels_example:
  "request_labels example_env (served_mw g) (http_scope ''/boom'') = get_labels ''/boom''"
  "request_labels example_env (served_mw g) (http_scope ''/cancel'') = get_labels ''/cancel''"
  "request_labels example_env (served_mw g) (http_scope ''/users/42'') = get_labels ''/users/{user_id}''"
  "request_labels example_env (served_mw g) ws_scope = ws_labels"
  by (simp_all add: request_labels_def path_example get_labels_def ws_labels_def)
     (simp_all add: http_scope_def ws_scope_def)

lemma not_excluded_example:
  "''/boom'' \<notin> set (exclude_paths (served_mw g))"
  "''/cancel'' \<notin> set (exclude_paths (served_mw g))"
  "''/users/{user_id}'' \<notin> set (exclude_paths (served_mw g))"
  "''/ws'' \<notin> set (exclude_paths (served_mw g))"
  "''/metrics'' \<in> set (exclude_paths (example_mw g))"
  by (simp_all add: served_mw_def created_mw_def example_mw_def EXCLUDE_PATHS_def)

lemma scope_type_example:
  "scope_type (http_scope p) \<in> set [''http'', ''websocket'']"
  "scope_type ws_scope \<in> set [''http'', ''websocket'']"
  by (simp_all add: http_scope_def ws_scope_def)

lemma not_excluded_path_example:
  "get_full_or_template_path example_env (served_mw g) (http_scope ''/boom'')
      \<notin> set (exclude_paths (served_mw g))"
  "get_full_or_template_path example_env (served_mw g) (http_scope ''/users/42'')
      \<notin> set (exclude_paths (served_mw g))"
  "get_full_or_template_path example_env (served_mw g) ws_scope
      \<notin> set (exclude_paths (served_mw g))"
  by (simp_all only: path_example not_excluded_example not_False_eq_True)

lemma served_mw_fields:
  "requests_counter (served_mw g) = Some zero_counter"
  "responses_counter (served_mw g) = Some zero_counter"
  "exceptions_counter (served_mw g) = Some zero_counter"
  "status_codes_counter (served_mw g) = Some zero_counter"
  "group_status_codes (served_mw g) = g"
  "asgi_callable (served_mw g) = example_app"
  by (simp_all add: served_mw_def created_mw_def example_mw_def)

lemma call_example_counted:
  "call example_env (example_mw g) example_world (http_scope ''/boom'') send =
     counted_request (get_labels ''/boom'') (served_mw g) created_world (http_scope ''/boom'') send"
  "call example_env (example_mw g) example_world (http_scope ''/users/42'') send =
     counted_request (get_labels ''/users/{user_id}'') (served_mw g) created_world
       (http_scope ''/users/42'') send"
  "call example_env (example_mw g) example_world ws_scope send =
     counted_request ws_labels (served_mw g) created_world ws_scope send"
  using call_counted_request[OF ensure_metrics_example[of g] scope_type_example(1), of "''/boom''" send]
    call_counted_request[OF ensure_metrics_example[of g] scope_type_example(1), of "''/users/42''" send]
    call_counted_request[OF ensure_metrics_example[of g] scope_type_example(2), of send]
  by (simp_all add: capture_app_example labels_example not_excluded_path_example)

lemma example_app_runs:
  "example_app (http_scope ''/boom'') = Raise (Exception ''boom'')"
  "example_app ws_scope = Return"
  "example_app (http_scope ''/users/42'') =
     Await_send (response_start 404)
             (\<lambda>r. case r of
                     Some e \<Rightarrow> Raise e
                   | None \<Rightarrow> Await_send response_body
                       (\<lambda>r. case r of Some e \<Rightarrow> Raise e | None \<Rightarrow> Return))"
  by (simp_all add: example_app_def http_scope_def ws_scope_def)

lemma call_ws_result:
  "call example_env (example_mw g) example_world ws_scope send_ok =
     ((served_mw g)\<lparr>requests_counter := Some (inc zero_counter ws_labels)\<rparr>, created_world, None)"
proof -
  let ?s3 = "(served_mw g)\<lparr>requests_counter := Some (inc zero_counter ws_labels)\<rparr>"
  have run: "interp (wrapped_send send_ok ws_labels) (asgi_callable (served_mw g) ws_scope)
        (?s3, created_world) = ((?s3, created_world), None)"
    by (simp add: served_mw_fields example_app_runs)
  from counted_request_run[OF served_mw_fields(1) run] show ?thesis
    by (simp add: call_example_counted)
qed

lemma call_boom_result:
  "call example_env (example_mw g) example_world (http_scope ''/boom'') send_ok =
     ((served_mw g)\<lparr>
        requests_counter := Some (inc zero_counter (get_labels ''/boom'')),
        exceptions_counter := Some (inc zero_counter (get_labels ''/boom'')),
        status_codes_counter :=
          Some (inc zero_counter (failure_labels g (get_labels ''/boom''))),
        responses_counter := Some (inc zero_counter (get_labels ''/boom''))\<rparr>,
      created_world, Some (Exception ''boom''))"
proof -
  let ?l = "get_labels ''/boom''"
  let ?s3 = "(served_mw g)\<lparr>requests_counter := Some (inc zero_counter ?l)\<rparr>"
  have run: "interp (wrapped_send send_ok ?l) (asgi_callable (served_mw g) (http_scope ''/boom''))
        (?s3, created_world) = ((?s3, created_world), Some (Exception ''boom''))"
    by (simp add: served_mw_fields example_app_runs)
  have e: "exceptions_counter ?s3 = Some zero_counter" "status_codes_counter ?s3 = Some zero_counter"
    "responses_counter ?s3 = Some zero_counter"
    by (simp_all add: served_mw_fields)
  from counted_request_run[OF served_mw_fields(1) run] except_body_exist[OF e, of ?l]
  show ?thesis
    by (simp add: call_example_counted failure_labels_def served_mw_fields)
qed

lemma call_user_result:
  "call example_env (example_mw False) example_world (http_scope ''/users/42'') send_ok =
     ((served_mw False)\<lparr>
        requests_counter := Some (inc zero_counter (get_labels ''/users/{user_id}'')),
        status_codes_counter :=
          Some (inc zero_counter (get_labels ''/users/{user_id}'' @ [(''status_code'', Some ''404'')])),
        responses_counter := Some (inc zero_counter (get_labels ''/users/{user_id}''))\<rparr>,
      created_world\<lparr>sent := [response_start 404, response_body]\<rparr>, None)"
proof -
  let ?l = "get_labels ''/users/{user_id}''"
  let ?s3 = "(served_mw False)\<lparr>requests_counter := Some (inc zero_counter ?l)\<rparr>"
  have ul: "AList.update ''status_code'' (Some ''404'') ?l = ?l @ [(''status_code'', Some ''404'')]"
    by (simp add: get_labels_def)
  have run: "interp (wrapped_send send_ok ?l) (asgi_callable (served_mw False) (http_scope ''/users/42''))
        (?s3, created_world) =
      (((served_mw False)\<lparr>
        requests_counter := Some (inc zero_counter ?l),
        status_codes_counter := Some (inc zero_counter (?l @ [(''status_code'', Some ''404'')])),
        responses_counter := Some (inc zero_counter ?l)\<rparr>,
       created_world\<lparr>sent := [response_start 404, response_body]\<rparr>), None)"
    by (simp add: served_mw_fields example_app_runs wrapped_send_def call_send_def send_ok_def
        status_code_label_def str_404 Let_def response_start_def response_body_def ul
        created_world_def)
  from counted_request_run[OF served_mw_fields(1) run] show ?thesis
    by (simp add: call_example_counted)
qed

lemma pass_through_example:
  "interp (call_send send_ok) (example_app (http_scope ''/metrics'')) created_world =
     (created_world\<lparr>sent := [response_start 404, response_body]\<rparr>, None)"
  by (simp add: example_app_def http_scope_def call_send_def send_ok_def created_world_def)

lemma init_example:
  "init example_app (Registry 0) EXCLUDE_PATHS True g None w = (Inr (example_mw g), w)"
  by (simp add: init_def example_mw_def EXCLUDE_PATHS_def)

lemma ensure_metrics_rejected:
  "snd (snd (ensure_metrics example_env (example_mw False) created_world)) =
     Some (Exception ''collector already registered'')"
  by (simp add: ensure_metrics_def create_metrics_def Counter_def example_env_def example_mw_def
      created_world_def metric_collectors_def Let_def)

section \<open>The claims\<close>

text \<open>
  Claim C1, as amended.  A request (scope type \<open>http\<close> or \<open>websocket\<close>) whose path
  is not excluded adds exactly one to \<open>requests_counter\<close> at the labels
  \<open>{method, path}\<close>, whatever the next callable does.  It adds exactly one to
  \<open>responses_counter\<close> and to \<open>status_codes_counter\<close> when the next callable sends one
  \<open>http.response.start\<close> and returns (the status label is that of the message), or
  raises an exception of class \<open>Exception\<close> without having sent one (the status
  label is that of 500); when it ends in another way without having sent one, these
  two counters stay as they were.  Here \<open>ms\<close> are the messages handed to the server
  during the call.
\<close>

theorem request_accounting:
  assumes ok: "metrics_ok self0"
    and ens: "ensure_metrics env self0 w0 = (self1, w1, None)"
    and ty: "scope_type scope \<in> set [''http'', ''websocket'']"
    and s2: "self2 = capture_app self1 scope"
    and lab: "labels = request_labels env self2 scope"
    and nex: "get_full_or_template_path env self2 scope \<notin> set (exclude_paths self2)"
    and qc: "requests_counter self1 = Some qc"
    and rc: "responses_counter self1 = Some rc"
    and sc: "status_codes_counter self1 = Some sc"
    and res: "call env self0 w0 scope send = (self', w', r)"
    and ms: "sent w' = sent w1 @ ms"
  shows "requests_counter self' = Some (inc qc labels) \<and>
     (r = None \<and> response_starts ms = [m] \<longrightarrow>
        (\<exists>code lbl. msg_status m = Some code \<and>
           status_code_label (group_status_codes self0) code = Inr lbl \<and>
           status_codes_counter self' =
             Some (inc sc (AList.update ''status_code'' (Some lbl) labels))) \<and>
        responses_counter self' = Some (inc rc labels)) \<and>
     (raised_Exception r \<and> response_starts ms = [] \<longrightarrow>
        status_codes_counter self' =
          Some (inc sc (failure_labels (group_status_codes self0) labels)) \<and>
        responses_counter self' = Some (inc rc labels)) \<and>
     (\<not> raised_Exception r \<and> response_starts ms = [] \<longrightarrow>
        status_codes_counter self' = Some sc \<and> responses_counter self' = Some rc)"
proof -
  from ensure_metrics_success(1)[OF ok ens] obtain ec where ec: "exceptions_counter self1 = Some ec"
    by (auto simp: metrics_exist_def)
  from ensure_metrics_frame[OF ens] have grp: "group_status_codes self1 = group_status_codes self0"
    by simp
  have cr: "counted_request labels self2 w1 scope send = (self', w', r)"
    using call_counted_request[OF ens ty] nex s2 lab res by simp
  have c2: "requests_counter self2 = Some qc" "responses_counter self2 = Some rc"
    "status_codes_counter self2 = Some sc" "exceptions_counter self2 = Some ec"
    "group_status_codes self2 = group_status_codes self0"
    using qc rc sc ec grp s2 by (simp_all add: capture_app_fields)
  note R = counted_request_result[OF c2(1) c2(2) c2(3) c2(4) cr]
  from R(3) ms obtain ms' where ms': "sent w' = sent w1 @ ms'"
    and al: "list_all (\<lambda>m. msg_status m \<noteq> None) (response_starts ms')"
    and rc': "responses_counter self' =
             Some ((if raised_Exception r then (\<lambda>c. inc c labels) else id)
                     (fold (\<lambda>m c. inc c labels) (response_starts ms') rc))"
    and sc': "status_codes_counter self' =
             Some ((if raised_Exception r
                    then (\<lambda>c. inc c (failure_labels (group_status_codes self0) labels)) else id)
                     (fold (\<lambda>m c. inc c (start_labels (group_status_codes self0) labels m))
                        (response_starts ms') sc))"
    unfolding c2(5) by blast
  from ms ms' have eq: "ms' = ms" by simp
  have one: "r = None \<and> response_starts ms = [m] \<longrightarrow>
        (\<exists>code lbl. msg_status m = Some code \<and>
           status_code_label (group_status_codes self0) code = Inr lbl \<and>
           status_codes_counter self' =
             Some (inc sc (AList.update ''status_code'' (Some lbl) labels))) \<and>
        responses_counter self' = Some (inc rc labels)"
  proof (intro impI, elim conjE)
    assume r: "r = None" and st: "response_starts ms = [m]"
    from al st eq obtain code where code: "msg_status m = Some code" by auto
    have "status_codes_counter self' =
        Some (inc sc (AList.update ''status_code''
           (Some (if group_status_codes self0 then hd (str code) # ''xx'' else str code)) labels))"
      using sc' r st eq code by (simp add: raised_Exception_def start_labels_def)
    moreover have "responses_counter self' = Some (inc rc labels)"
      using rc' r st eq by (simp add: raised_Exception_def)
    ultimately show "(\<exists>code lbl. msg_status m = Some code \<and>
           status_code_label (group_status_codes self0) code = Inr lbl \<and>
           status_codes_counter self' =
             Some (inc sc (AList.update ''status_code'' (Some lbl) labels))) \<and>
        responses_counter self' = Some (inc rc labels)"
      using code status_code_label_eq[of "group_status_codes self0" code] by blast
  qed
  have fail: "raised_Exception r \<and> response_starts ms = [] \<longrightarrow>
        status_codes_counter self' =
          Some (inc sc (failure_labels (group_status_codes self0) labels)) \<and>
        responses_counter self' = Some (inc rc labels)"
    using rc' sc' eq by simp
  have none: "\<not> raised_Exception r \<and> response_starts ms = [] \<longrightarrow>
        status_codes_counter self' = Some sc \<and> responses_counter self' = Some rc"
    using rc' sc' eq by simp
  from R(1) one fail none show ?thesis by blast
qed

text \<open>On the example application: a request answered with 404, a request whose handler
  raises, and a websocket that returns without a response.\<close>

theorem request_accounting_witness:
  "metrics_ok (example_mw False) \<and>
   ensure_metrics example_env (example_mw False) example_world =
     (created_mw False, created_world, None) \<and>
   scope_type (http_scope ''/users/42'') \<in> set [''http'', ''websocket''] \<and>
   served_mw False = capture_app (created_mw False) (http_scope ''/users/42'') \<and>
   get_labels ''/users/{user_id}'' =
     request_labels example_env (served_mw False) (http_scope ''/users/42'') \<and>
   get_full_or_template_path example_env (served_mw False) (http_scope ''/users/42'')
      \<notin> set (exclude_paths (served_mw False)) \<and>
   requests_counter (created_mw False) = Some zero_counter \<and>
   responses_counter (created_mw False) = Some zero_counter \<and>
   status_codes_counter (created_mw False) = Some zero_counter \<and>
   call example_env (example_mw False) example_world (http_scope ''/users/42'') send_ok =
     ((served_mw False)\<lparr>
        requests_counter := Some (inc zero_counter (get_labels ''/users/{user_id}'')),
        status_codes_counter :=
          Some (inc zero_counter (get_labels ''/users/{user_id}'' @ [(''status_code'', Some ''404'')])),
        responses_counter := Some (inc zero_counter (get_labels ''/users/{user_id}''))\<rparr>,
      created_world\<lparr>sent := [response_start 404, response_body]\<rparr>, None) \<and>
   sent (created_world\<lparr>sent := [response_start 404, response_body]\<rparr>) =
     sent created_world @ [response_start 404, response_body] \<and>
   response_starts [response_start 404, response_body] = [response_start 404] \<and>
   (\<exists>code lbl. msg_status (response_start 404) = Some code \<and>
      status_code_label (group_status_codes (example_mw False)) code = Inr lbl \<and>
      status_codes_counter
        (fst (call example_env (example_mw False) example_world (http_scope ''/users/42'') send_ok)) =
        Some (inc zero_counter
               (AList.update ''status_code'' (Some lbl) (get_labels ''/users/{user_id}'')))) \<and>
   responses_counter
     (fst (call example_env (example_mw False) example_world (http_scope ''/users/42'') send_ok)) =
     Some (inc zero_counter (get_labels ''/users/{user_id}'')) \<and>
   raised_Exception (snd (snd (call example_env (example_mw False) example_world (http_scope ''/boom'') send_ok))) \<and>
   requests_counter
     (fst (call example_env (example_mw False) example_world (http_scope ''/boom'') send_ok)) =
     Some (inc zero_counter (get_labels ''/boom'')) \<and>
   status_codes_counter
     (fst (call example_env (example_mw False) example_world (http_scope ''/boom'') send_ok)) =
     Some (inc zero_counter (get_labels ''/boom'' @ [(''status_code'', Some ''500'')])) \<and>
   responses_counter
     (fst (call example_env (example_mw False) example_world (http_scope ''/boom'') send_ok)) =
     Some (inc zero_counter (get_labels ''/boom'')) \<and>
   \<not> raised_Exception (snd (snd (call example_env (example_mw False) example_world ws_scope send_ok))) \<and>
   requests_counter (fst (call example_env (example_mw False) example_world ws_scope send_ok)) =
     Some (inc zero_counter ws_labels) \<and>
   status_codes_counter (fst (call example_env (example_mw False) example_world ws_scope send_ok)) =
     Some zero_counter \<and>
   responses_counter (fst (call example_env (example_mw False) example_world ws_scope send_ok)) =
     Some zero_counter"
proof -
  let ?u = "http_scope ''/users/42''"
  let ?b = "http_scope ''/boom''"
  let ?w2 = "created_world\<lparr>sent := [response_start 404, response_body]\<rparr>"
  note h1 = metrics_ok_example[of False]
  note h2 = ensure_metrics_example[of False]
  note q = created_mw_counters[of False]
  txt \<open>A request answered with 404.\<close>
  note u3 = scope_type_example(1)[of "''/users/42''"]
  note u4 = capture_app_example(1)[of False "''/users/42''", symmetric]
  note u5 = labels_example(3)[of False, symmetric]
  note u6 = not_excluded_path_example(2)[of False]
  note u7 = call_user_result
  have u8: "sent ?w2 = sent created_world @ [response_start 404, response_body]"
    by (simp add: created_world_def)
  have u9: "response_starts [response_start 404, response_body] = [response_start 404]"
    by (simp add: response_starts_def response_start_def response_body_def)
  note U = request_accounting[OF h1 h2 u3 u4 u5 u6 q(1) q(2) q(4) u7 u8, of "response_start 404"]
  from U u9 have U1: "\<exists>code lbl. msg_status (response_start 404) = Some code \<and>
      status_code_label (group_status_codes (example_mw False)) code = Inr lbl \<and>
      status_codes_counter (fst (call example_env (example_mw False) example_world ?u send_ok)) =
        Some (inc zero_counter
               (AList.update ''status_code'' (Some lbl) (get_labels ''/users/{user_id}'')))"
    and U2: "responses_counter (fst (call example_env (example_mw False) example_world ?u send_ok)) =
     Some (inc zero_counter (get_labels ''/users/{user_id}''))"
    unfolding u7 by simp_all
  txt \<open>A request whose handler raises.\<close>
  note b3 = scope_type_example(1)[of "''/boom''"]
  note b4 = capture_app_example(1)[of False "''/boom''", symmetric]
  note b5 = labels_example(1)[of False, symmetric]
  note b6 = not_excluded_path_example(1)[of False]
  note b7 = call_boom_result[of False]
  have b8: "sent created_world = sent created_world @ []" by simp
  have b9: "response_starts [] = []" by (simp add: response_starts_def)
  have b10: "raised_Exception (Some (Exception ''boom''))" by (simp add: raised_Exception_def)
  note B = request_accounting[OF h1 h2 b3 b4 b5 b6 q(1) q(2) q(4) b7 b8, of response_body]
  have fl: "failure_labels False (get_labels ''/boom'') =
      get_labels ''/boom'' @ [(''status_code'', Some ''500'')]"
    by (simp add: failure_labels_def get_labels_def)
  from B b9 b10 have B1: "raised_Exception (snd (snd (call example_env (example_mw False) example_world ?b send_ok)))"
    and B2: "requests_counter (fst (call example_env (example_mw False) example_world ?b send_ok)) =
     Some (inc zero_counter (get_labels ''/boom''))"
    and B3: "status_codes_counter (fst (call example_env (example_mw False) example_world ?b send_ok)) =
     Some (inc zero_counter (get_labels ''/boom'' @ [(''status_code'', Some ''500'')]))"
    and B4: "responses_counter (fst (call example_env (example_mw False) example_world ?b send_ok)) =
     Some (inc zero_counter (get_labels ''/boom''))"
    unfolding b7 by (simp_all add: example_mw_def fl)
  txt \<open>A websocket that closes without a response.\<close>
  note w3 = scope_type_example(2)
  note w4 = capture_app_example(2)[of False, symmetric]
  note w5 = labels_example(4)[of False, symmetric]
  note w6 = not_excluded_path_example(3)[of False]
  note w7 = call_ws_result[of False]
  have w10: "\<not> raised_Exception None" by (simp add: raised_Exception_def)
  note W = request_accounting[OF h1 h2 w3 w4 w5 w6 q(1) q(2) q(4) w7 b8, of response_body]
  from W b9 w10 have W1: "\<not> raised_Exception (snd (snd (call example_env (example_mw False) example_world ws_scope send_ok)))"
    and W2: "requests_counter (fst (call example_env (example_mw False) example_world ws_scope send_ok)) =
     Some (inc zero_counter ws_labels)"
    and W3: "status_codes_counter (fst (call example_env (example_mw False) example_world ws_scope send_ok)) =
     Some zero_counter"
    and W4: "responses_counter (fst (call example_env (example_mw False) example_world ws_scope send_ok)) =
     Some zero_counter"
    unfolding w7 by simp_all
  from h1 h2 u3 u4 u5 u6 q(1) q(2) q(4) u7 u8 u9 U1 U2 B1 B2 B3 B4 W1 W2 W3 W4
  show ?thesis by (intro conjI)
qed

text \<open>The claim as stated fails on the websocket request: it is not excluded, the call
  returns, and the two counters are what they were when created.\<close>

theorem request_accounting_counterexample:
  "scope_type ws_scope \<in> set [''http'', ''websocket''] \<and>
   get_full_or_template_path example_env (served_mw False) ws_scope
      \<notin> set (exclude_paths (served_mw False)) \<and>
   call example_env (example_mw False) example_world ws_scope send_ok =
     ((served_mw False)\<lparr>requests_counter := Some (inc zero_counter ws_labels)\<rparr>,
      created_world, None) \<and>
   responses_counter (created_mw False) = Some zero_counter \<and>
   status_codes_counter (created_mw False) = Some zero_counter \<and>
   responses_counter (fst (call example_env (example_mw False) example_world ws_scope send_ok)) =
     Some zero_counter \<and>
   status_codes_counter (fst (call example_env (example_mw False) example_world ws_scope send_ok)) =
     Some zero_counter"
proof -
  note c = call_ws_result[of False]
  have "responses_counter (fst (call example_env (example_mw False) example_world ws_scope send_ok)) =
     Some zero_counter"
    "status_codes_counter (fst (call example_env (example_mw False) example_world ws_scope send_ok)) =
     Some zero_counter"
    unfolding c by (simp_all add: served_mw_fields)
  with scope_type_example(2) not_excluded_path_example(3)[of False] c created_mw_counters(2,4)[of False]
  show ?thesis by (intro conjI)
qed

text \<open>
  Claim C2, as amended.  For a request that is not excluded and whose next callable
  raises \<open>e\<close>: when \<open>e\<close> is of class \<open>Exception\<close>, the middleware adds one to
  \<open>exceptions_counter\<close> at the labels \<open>{method, path}\<close>, one to \<open>status_codes_counter\<close>
  at these labels with \<open>status_code\<close> set to \<open>5xx\<close> when grouping is on and to \<open>500\<close>
  otherwise, one to \<open>responses_counter\<close> at \<open>{method, path}\<close>, and raises \<open>e\<close> itself;
  when \<open>e\<close> is outside the class \<open>Exception\<close>, it raises \<open>e\<close> itself and counts
  nothing more.
\<close>

theorem exception_accounting:
  assumes ok: "metrics_ok self0"
    and ens: "ensure_metrics env self0 w0 = (self1, w1, None)"
    and ty: "scope_type scope \<in> set [''http'', ''websocket'']"
    and s2: "self2 = capture_app self1 scope"
    and lab: "labels = request_labels env self2 scope"
    and nex: "get_full_or_template_path env self2 scope \<notin> set (exclude_paths self2)"
    and qc: "requests_counter self1 = Some qc"
    and run: "interp (wrapped_send send labels) (asgi_callable self0 scope)
                (self2\<lparr>requests_counter := Some (inc qc labels)\<rparr>, w1) = ((self4, w4), Some e)"
  shows "(isinstance_Exception e \<longrightarrow>
          (\<exists>ec sc rc.
             exceptions_counter self1 = Some ec \<and> exceptions_counter self4 = Some ec \<and>
             status_codes_counter self4 = Some sc \<and> responses_counter self4 = Some rc \<and>
             call env self0 w0 scope send =
               (self4\<lparr>exceptions_counter := Some (inc ec labels),
                      status_codes_counter := Some (inc sc (AList.update ''status_code''
                         (Some (if group_status_codes self0 then ''5xx'' else ''500'')) labels)),
                      responses_counter := Some (inc rc labels)\<rparr>,
                w4, Some e))) \<and>
         (\<not> isinstance_Exception e \<longrightarrow> call env self0 w0 scope send = (self4, w4, Some e))"
proof -
  let ?self3 = "self2\<lparr>requests_counter := Some (inc qc labels)\<rparr>"
  from ensure_metrics_success(1)[OF ok ens] have ex1: "metrics_exist self1" .
  from ensure_metrics_frame[OF ens] have app: "asgi_callable self1 = asgi_callable self0"
    and grp: "group_status_codes self1 = group_status_codes self0" by simp_all
  from ex1 obtain ec sc0 rc0 where ec: "exceptions_counter self1 = Some ec"
    and sc0: "status_codes_counter self1 = Some sc0" and rc0: "responses_counter self1 = Some rc0"
    by (auto simp: metrics_exist_def)
  have fr: "frame self4 = frame ?self3"
    using interp_wrapped_frame[of send labels "asgi_callable self0 scope" ?self3 w1] run by simp
  have ec4: "exceptions_counter self4 = Some ec"
    using frame_fields(2)[OF fr] ec s2 by (simp add: capture_app_fields)
  have g4: "group_status_codes self4 = group_status_codes self0"
    using frame_fields(4)[OF fr] grp s2 by (simp add: capture_app_fields)
  have "counted labels sc0 rc0 w1 (group_status_codes ?self3)
           (fst (interp (wrapped_send send labels) (asgi_callable self0 scope) (?self3, w1)))"
    by (rule interp_wrapped_counted) (simp_all add: s2 capture_app_fields sc0 rc0)
  then obtain sc rc where sc: "status_codes_counter self4 = Some sc"
    and rc: "responses_counter self4 = Some rc"
    using run by (auto simp: counted_def)
  have c1: "call env self0 w0 scope send = counted_request labels self2 w1 scope send"
    using call_counted_request[OF ens ty] nex s2 lab by simp
  have c2: "counted_request labels self2 w1 scope send =
          (if isinstance_Exception e then
             (case except_body labels self4 of
                (self5, None) \<Rightarrow> (self5, w4, Some e)
              | (self5, Some e') \<Rightarrow> (self5, w4, Some e'))
           else (self4, w4, Some e))"
    using counted_request_run[of self2 qc send labels scope w1 self4 w4 "Some e"] run qc s2 app
    by (simp add: capture_app_fields)
  have caught: "isinstance_Exception e \<longrightarrow>
      call env self0 w0 scope send =
               (self4\<lparr>exceptions_counter := Some (inc ec labels),
                      status_codes_counter := Some (inc sc (AList.update ''status_code''
                         (Some (if group_status_codes self0 then ''5xx'' else ''500'')) labels)),
                      responses_counter := Some (inc rc labels)\<rparr>,
                w4, Some e)"
    using c1 c2 except_body_exist[OF ec4 sc rc, of labels] g4 by simp
  have passed: "\<not> isinstance_Exception e \<longrightarrow> call env self0 w0 scope send = (self4, w4, Some e)"
    using c1 c2 by simp
  from caught passed ec ec4 sc rc show ?thesis by blast
qed

text \<open>On the example application, with grouping on: the request to \<open>/boom\<close>.\<close>

theorem exception_accounting_witness:
  "metrics_ok (example_mw True) \<and>
   ensure_metrics example_env (example_mw True) example_world =
     (created_mw True, created_world, None) \<and>
   scope_type (http_scope ''/boom'') \<in> set [''http'', ''websocket''] \<and>
   served_mw True = capture_app (created_mw True) (http_scope ''/boom'') \<and>
   get_labels ''/boom'' = request_labels example_env (served_mw True) (http_scope ''/boom'') \<and>
   get_full_or_template_path example_env (served_mw True) (http_scope ''/boom'')
      \<notin> set (exclude_paths (served_mw True)) \<and>
   requests_counter (created_mw True) = Some zero_counter \<and>
   interp (wrapped_send send_ok (get_labels ''/boom''))
       (asgi_callable (example_mw True) (http_scope ''/boom''))
       ((served_mw True)\<lparr>requests_counter := Some (inc zero_counter (get_labels ''/boom''))\<rparr>,
        created_world) =
     (((served_mw True)\<lparr>requests_counter := Some (inc zero_counter (get_labels ''/boom''))\<rparr>,
       created_world), Some (Exception ''boom'')) \<and>
   isinstance_Exception (Exception ''boom'') \<and>
   call example_env (example_mw True) example_world (http_scope ''/boom'') send_ok =
     ((served_mw True)\<lparr>
        requests_counter := Some (inc zero_counter (get_labels ''/boom'')),
        exceptions_counter := Some (inc zero_counter (get_labels ''/boom'')),
        status_codes_counter :=
          Some (inc zero_counter (get_labels ''/boom'' @ [(''status_code'', Some ''5xx'')])),
        responses_counter := Some (inc zero_counter (get_labels ''/boom''))\<rparr>,
      created_world, Some (Exception ''boom''))"
proof -
  let ?sc = "http_scope ''/boom''"
  let ?l = "get_labels ''/boom''"
  let ?s3 = "(served_mw True)\<lparr>requests_counter := Some (inc zero_counter ?l)\<rparr>"
  note h1 = metrics_ok_example[of True]
  note h2 = ensure_metrics_example[of True]
  have h3: "scope_type ?sc \<in> set [''http'', ''websocket'']"
    by (simp add: http_scope_def)
  note h4 = capture_app_example(1)[of True "''/boom''", symmetric]
  note h5 = labels_example(1)[of True, symmetric]
  have h6: "get_full_or_template_path example_env (served_mw True) ?sc
      \<notin> set (exclude_paths (served_mw True))"
    by (simp only: path_example not_excluded_example not_False_eq_True)
  note h7 = created_mw_counters(1)[of True]
  have h8: "interp (wrapped_send send_ok ?l) (asgi_callable (example_mw True) ?sc)
       (?s3, created_world) = ((?s3, created_world), Some (Exception ''boom''))"
    by (simp add: example_mw_def example_app_def http_scope_def)
  have h9: "isinstance_Exception (Exception ''boom'')" by simp
  from exception_accounting[OF h1 h2 h3 h4 h5 h6 h7 h8] h9
  have "call example_env (example_mw True) example_world ?sc send_ok =
     ((served_mw True)\<lparr>
        requests_counter := Some (inc zero_counter ?l),
        exceptions_counter := Some (inc zero_counter ?l),
        status_codes_counter :=
          Some (inc zero_counter (?l @ [(''status_code'', Some ''5xx'')])),
        responses_counter := Some (inc zero_counter ?l)\<rparr>,
      created_world, Some (Exception ''boom''))"
    by (simp add: served_mw_def created_mw_def example_mw_def get_labels_def)
  with h1 h2 h3 h4 h5 h6 h7 h8 h9 show ?thesis by blast
qed

text \<open>The claim as stated fails on the request to \<open>/cancel\<close>, whose handler raises an
  exception outside the class \<open>Exception\<close>: only the request is counted.\<close>

theorem exception_accounting_counterexample:
  "scope_type (http_scope ''/cancel'') \<in> set [''http'', ''websocket''] \<and>
   get_full_or_template_path example_env (served_mw True) (http_scope ''/cancel'')
      \<notin> set (exclude_paths (served_mw True)) \<and>
   asgi_callable (example_mw True) (http_scope ''/cancel'') = Raise (BaseException ''CancelledError'') \<and>
   call example_env (example_mw True) example_world (http_scope ''/cancel'') send_ok =
     ((served_mw True)\<lparr>requests_counter := Some (inc zero_counter (get_labels ''/cancel''))\<rparr>,
      created_world, Some (BaseException ''CancelledError'')) \<and>
   exceptions_counter
     (fst (call example_env (example_mw True) example_world (http_scope ''/cancel'') send_ok)) =
     Some zero_counter \<and>
   status_codes_counter
     (fst (call example_env (example_mw True) example_world (http_scope ''/cancel'') send_ok)) =
     Some zero_counter \<and>
   responses_counter
     (fst (call example_env (example_mw True) example_world (http_scope ''/cancel'') send_ok)) =
     Some zero_counter"
proof -
  let ?sc = "http_scope ''/cancel''"
  have h3: "scope_type ?sc \<in> set [''http'', ''websocket'']"
    by (simp add: http_scope_def)
  have h6: "get_full_or_template_path example_env (served_mw True) ?sc
      \<notin> set (exclude_paths (served_mw True))"
    by (simp only: path_example not_excluded_example not_False_eq_True)
  have app: "asgi_callable (example_mw True) ?sc = Raise (BaseException ''CancelledError'')"
    by (simp add: example_mw_def example_app_def http_scope_def)
  have app': "asgi_callable (served_mw True) ?sc = Raise (BaseException ''CancelledError'')"
    by (simp add: served_mw_def created_mw_def example_mw_def example_app_def http_scope_def)
  have "call example_env (example_mw True) example_world ?sc send_ok =
      counted_request (get_labels ''/cancel'') (served_mw True) created_world ?sc send_ok"
    using call_counted_request[OF ensure_metrics_example[of True] h3, of send_ok] h6
    by (simp add: capture_app_example labels_example)
  also have "\<dots> =
     ((served_mw True)\<lparr>requests_counter := Some (inc zero_counter (get_labels ''/cancel''))\<rparr>,
      created_world, Some (BaseException ''CancelledError''))"
  proof -
    let ?s3 = "(served_mw True)\<lparr>requests_counter := Some (inc zero_counter (get_labels ''/cancel''))\<rparr>"
    have q: "requests_counter (served_mw True) = Some zero_counter"
      by (simp add: served_mw_def created_mw_def)
    have run: "interp (wrapped_send send_ok (get_labels ''/cancel'')) (asgi_callable (served_mw True) ?sc)
        (?s3, created_world) = ((?s3, created_world), Some (BaseException ''CancelledError''))"
      by (simp add: app')
    from counted_request_run[OF q run] show ?thesis by simp
  qed
  finally have c: "call example_env (example_mw True) example_world ?sc send_ok =
     ((served_mw True)\<lparr>requests_counter := Some (inc zero_counter (get_labels ''/cancel''))\<rparr>,
      created_world, Some (BaseException ''CancelledError''))" .
  have "exceptions_counter (fst (call example_env (example_mw True) example_world ?sc send_ok)) =
     Some zero_counter"
    "status_codes_counter (fst (call example_env (example_mw True) example_world ?sc send_ok)) =
     Some zero_counter"
    "responses_counter (fst (call example_env (example_mw True) example_world ?sc send_ok)) =
     Some zero_counter"
    unfolding c by (simp_all add: served_mw_def created_mw_def)
  with h3 h6 app c show ?thesis by blast
qed

text \<open>
  Claim C3.  For a status code (a number that is not negative) in an
  \<open>http.response.start\<close> message, \<open>wrapped_send\<close> counts the response under the label
  \<open>status_code\<close> equal to the decimal string of the code when \<open>group_status_codes\<close> is
  false, and to the first digit of the code followed by \<open>xx\<close> when it is true.  The
  decimal string consists of digits and denotes the code.
\<close>

theorem status_code_bucketing:
  assumes code: "0 \<le> code"
    and ty: "msg_type m = ''http.response.start''"
    and st: "msg_status m = Some code"
    and sc: "status_codes_counter self = Some sc"
    and rc: "responses_counter self = Some rc"
  shows "status_codes_counter (fst (fst (wrapped_send send labels (self, w) m))) =
           Some (inc sc (AList.update ''status_code''
             (Some (if group_status_codes self
                    then digit_char (leading_digit (nat code)) # ''xx''
                    else str code)) labels)) \<and>
         decimal_value (str code) = nat code \<and>
         list_all (\<lambda>c. c \<in> set ''0123456789'') (str code)"
proof -
  from code have s: "str code = str_nat (nat code)" by (simp add: str_def)
  have hd: "hd (str code) = digit_char (leading_digit (nat code))"
    unfolding s by (rule hd_str_nat)
  have "status_codes_counter (fst (fst (wrapped_send send labels (self, w) m))) =
           Some (inc sc (AList.update ''status_code''
             (Some (if group_status_codes self then hd (str code) # ''xx'' else str code)) labels))"
    using ty st sc rc
    by (simp add: wrapped_send_def status_code_label_eq call_send_def Let_def)
  then have "status_codes_counter (fst (fst (wrapped_send send labels (self, w) m))) =
           Some (inc sc (AList.update ''status_code''
             (Some (if group_status_codes self
                    then digit_char (leading_digit (nat code)) # ''xx''
                    else str code)) labels))"
    unfolding hd .
  moreover have "decimal_value (str code) = nat code"
    unfolding s by (rule decimal_value_str_nat)
  moreover have "list_all (\<lambda>c. c \<in> set ''0123456789'') (str code)"
    unfolding s by (rule str_nat_digits)
  ultimately show ?thesis by blast
qed

text \<open>The status 404 is counted under \<open>4xx\<close> with grouping and under \<open>404\<close> without.\<close>

theorem status_code_bucketing_witness:
  "(0::int) \<le> 404 \<and>
   msg_type (response_start 404) = ''http.response.start'' \<and>
   msg_status (response_start 404) = Some 404 \<and>
   status_codes_counter (served_mw True) = Some zero_counter \<and>
   responses_counter (served_mw True) = Some zero_counter \<and>
   status_codes_counter (served_mw False) = Some zero_counter \<and>
   responses_counter (served_mw False) = Some zero_counter \<and>
   status_codes_counter (fst (fst (wrapped_send send_ok (get_labels ''/users/{user_id}'')
       (served_mw True, created_world) (response_start 404)))) =
     Some (inc zero_counter (get_labels ''/users/{user_id}'' @ [(''status_code'', Some ''4xx'')])) \<and>
   status_codes_counter (fst (fst (wrapped_send send_ok (get_labels ''/users/{user_id}'')
       (served_mw False, created_world) (response_start 404)))) =
     Some (inc zero_counter (get_labels ''/users/{user_id}'' @ [(''status_code'', Some ''404'')])) \<and>
   decimal_value ''404'' = 404"
proof -
  let ?l = "get_labels ''/users/{user_id}''"
  have h1: "(0::int) \<le> 404" by simp
  have h2: "msg_type (response_start 404) = ''http.response.start''"
    and h3: "msg_status (response_start 404) = Some 404"
    by (simp_all add: response_start_def)
  have ld: "digit_char (leading_digit 404) = CHR ''4''"
    by (simp add: leading_digit.simps digit_char_def)
  have ul: "\<And>s. AList.update ''status_code'' (Some s) ?l = ?l @ [(''status_code'', Some s)]"
    by (simp add: get_labels_def)
  note T = status_code_bucketing[OF h1 h2 h3 served_mw_fields(4)[of True] served_mw_fields(2)[of True],
      of send_ok ?l created_world]
  note F = status_code_bucketing[OF h1 h2 h3 served_mw_fields(4)[of False] served_mw_fields(2)[of False],
      of send_ok ?l created_world]
  from T have T1: "status_codes_counter (fst (fst (wrapped_send send_ok ?l
       (served_mw True, created_world) (response_start 404)))) =
     Some (inc zero_counter (?l @ [(''status_code'', Some ''4xx'')]))"
    by (simp add: served_mw_fields ld ul)
  from F have F1: "status_codes_counter (fst (fst (wrapped_send send_ok ?l
       (served_mw False, created_world) (response_start 404)))) =
     Some (inc zero_counter (?l @ [(''status_code'', Some ''404'')]))"
    and F2: "decimal_value ''404'' = 404"
    by (simp_all add: served_mw_fields str_404 ul)
  from h1 h2 h3 served_mw_fields(4)[of True] served_mw_fields(2)[of True]
    served_mw_fields(4)[of False] served_mw_fields(2)[of False] T1 F1 F2
  show ?thesis by (intro conjI)
qed

text \<open>
  Claim C4.  A request whose path, as classified, is a member of the exclusion list
  increments no counter (each counter is what it was, or was created at zero by this
  call), and the next callable runs on the same scope with the server's own \<open>send\<close>:
  the messages sent and the outcome of the call are those of the next callable.
\<close>

theorem excluded_path_passes_through:
  assumes ens: "ensure_metrics env self0 w0 = (self1, w1, None)"
    and ty: "scope_type scope \<in> set [''http'', ''websocket'']"
    and s2: "self2 = capture_app self1 scope"
    and exc: "get_full_or_template_path env self2 scope \<in> set (exclude_paths self0)"
  shows "call env self0 w0 scope send =
           (self2, fst (interp (call_send send) (asgi_callable self0 scope) w1),
                   snd (interp (call_send send) (asgi_callable self0 scope) w1)) \<and>
         requests_counter self2 = requests_counter self1 \<and>
         responses_counter self2 = responses_counter self1 \<and>
         exceptions_counter self2 = exceptions_counter self1 \<and>
         status_codes_counter self2 = status_codes_counter self1 \<and>
         (if metrics_created self0 then self1 = self0
          else self1 = self0\<lparr>requests_counter := Some zero_counter,
                             responses_counter := Some zero_counter,
                             exceptions_counter := Some zero_counter,
                             status_codes_counter := Some zero_counter,
                             metrics_created := True\<rparr>)"
proof -
  from ensure_metrics_frame[OF ens] have f: "asgi_callable self1 = asgi_callable self0"
    "exclude_paths self1 = exclude_paths self0" by simp_all
  have "call env self0 w0 scope send = pass_through self2 w1 scope send"
    using ens ty exc s2 f by (auto simp: call_def Let_def capture_app_fields)
  then have c: "call env self0 w0 scope send =
           (self2, fst (interp (call_send send) (asgi_callable self0 scope) w1),
                   snd (interp (call_send send) (asgi_callable self0 scope) w1))"
    using f s2 by (simp add: pass_through_eq capture_app_fields)
  have k: "requests_counter self2 = requests_counter self1"
    "responses_counter self2 = responses_counter self1"
    "exceptions_counter self2 = exceptions_counter self1"
    "status_codes_counter self2 = status_codes_counter self1"
    using s2 by (simp_all add: capture_app_fields)
  have m: "if metrics_created self0 then self1 = self0
          else self1 = self0\<lparr>requests_counter := Some zero_counter,
                             responses_counter := Some zero_counter,
                             exceptions_counter := Some zero_counter,
                             status_codes_counter := Some zero_counter,
                             metrics_created := True\<rparr>"
  proof (cases "metrics_created self0")
    case True
    with ens show ?thesis by (simp add: ensure_metrics_def)
  next
    case False
    with ens have "create_metrics env self0 w0 = (self1, w1, None)"
      by (simp add: ensure_metrics_def)
    from create_metrics_success(1)[OF this] False show ?thesis by simp
  qed
  from c k m show ?thesis by (intro conjI)
qed

text \<open>On the example application: a request to \<open>/metrics\<close>.\<close>

theorem excluded_path_passes_through_witness:
  "ensure_metrics example_env (example_mw False) example_world =
     (created_mw False, created_world, None) \<and>
   scope_type (http_scope ''/metrics'') \<in> set [''http'', ''websocket''] \<and>
   served_mw False = capture_app (created_mw False) (http_scope ''/metrics'') \<and>
   get_full_or_template_path example_env (served_mw False) (http_scope ''/metrics'')
     \<in> set (exclude_paths (example_mw False)) \<and>
   call example_env (example_mw False) example_world (http_scope ''/metrics'') send_ok =
     (served_mw False, created_world\<lparr>sent := [response_start 404, response_body]\<rparr>, None) \<and>
   requests_counter (served_mw False) = Some zero_counter \<and>
   responses_counter (served_mw False) = Some zero_counter \<and>
   exceptions_counter (served_mw False) = Some zero_counter \<and>
   status_codes_counter (served_mw False) = Some zero_counter"
proof -
  note h1 = ensure_metrics_example[of False]
  note h2 = scope_type_example(1)[of "''/metrics''"]
  note h3 = capture_app_example(1)[of False "''/metrics''", symmetric]
  have h4: "get_full_or_template_path example_env (served_mw False) (http_scope ''/metrics'')
     \<in> set (exclude_paths (example_mw False))"
    by (simp only: path_example not_excluded_example)
  from excluded_path_passes_through[OF h1 h2 h3 h4, of send_ok]
  have "call example_env (example_mw False) example_world (http_scope ''/metrics'') send_ok =
     (served_mw False, created_world\<lparr>sent := [response_start 404, response_body]\<rparr>, None)"
    by (simp add: example_mw_def pass_through_example)
  with h1 h2 h3 h4 served_mw_fields(1,2,3,4)[of False] show ?thesis by (intro conjI)
qed

text \<open>
  Claim C5.  The path label is the root path followed by the path when
  \<open>use_template_urls\<close> is false or no application was captured; otherwise it is the
  template path of the first route whose match is \<open>FULL\<close>, and the literal path when no
  route matches in full (a partial match does not count).
\<close>

theorem path_classification:
  "(\<not> use_template_urls self \<or> starlette_app self = None \<longrightarrow>
      get_full_or_template_path env self scope = full_path scope) \<and>
   (use_template_urls self \<and> starlette_app self = Some a \<and>
    app_routes env a = rs1 @ r # rs2 \<and>
    (\<forall>r' \<in> set rs1. route_matches r' scope \<noteq> FULL) \<and> route_matches r scope = FULL \<longrightarrow>
      get_full_or_template_path env self scope = route_path r) \<and>
   (use_template_urls self \<and> starlette_app self = Some a \<and>
    (\<forall>r' \<in> set (app_routes env a). route_matches r' scope \<noteq> FULL) \<longrightarrow>
      get_full_or_template_path env self scope = full_path scope)"
proof -
  have "\<not> use_template_urls self \<or> starlette_app self = None \<longrightarrow>
      get_full_or_template_path env self scope = full_path scope"
    by (auto simp: get_full_or_template_path_def full_path_def Let_def)
  moreover have "use_template_urls self \<and> starlette_app self = Some a \<and>
    app_routes env a = rs1 @ r # rs2 \<and>
    (\<forall>r' \<in> set rs1. route_matches r' scope \<noteq> FULL) \<and> route_matches r scope = FULL \<longrightarrow>
      get_full_or_template_path env self scope = route_path r"
    by (auto simp: get_full_or_template_path_def Let_def first_full_match_first)
  moreover have "use_template_urls self \<and> starlette_app self = Some a \<and>
    (\<forall>r' \<in> set (app_routes env a). route_matches r' scope \<noteq> FULL) \<longrightarrow>
      get_full_or_template_path env self scope = full_path scope"
    by (auto simp: get_full_or_template_path_def full_path_def Let_def first_full_match_none)
  ultimately show ?thesis by blast
qed

text \<open>On the example application: \<open>/users/42\<close> before and after the application was
  captured, and \<open>/users\<close>, which the first route matches only in part.\<close>

theorem path_classification_witness:
  "starlette_app (example_mw True) = None \<and>
   get_full_or_template_path example_env (example_mw True) (http_scope ''/users/42'') = ''/users/42'' \<and>
   use_template_urls (served_mw True) \<and> starlette_app (served_mw True) = Some 7 \<and>
   app_routes example_env 7 = [users_route] @ user_route # [] \<and>
   route_matches users_route (http_scope ''/users/42'') = NONE \<and>
   route_matches user_route (http_scope ''/users/42'') = FULL \<and>
   get_full_or_template_path example_env (served_mw True) (http_scope ''/users/42'') =
     ''/users/{user_id}'' \<and>
   route_matches users_route (http_scope ''/users'') = PARTIAL \<and>
   route_matches user_route (http_scope ''/users'') = NONE \<and>
   get_full_or_template_path example_env (served_mw True) (http_scope ''/users'') = ''/users''"
proof -
  let ?u = "http_scope ''/users/42''"
  let ?v = "http_scope ''/users''"
  have a0: "starlette_app (example_mw True) = None" by (simp add: example_mw_def)
  have a1: "use_template_urls (served_mw True)" and a2: "starlette_app (served_mw True) = Some 7"
    by (simp_all add: served_mw_def created_mw_def example_mw_def)
  have a3: "app_routes example_env 7 = [users_route] @ user_route # []"
    by (simp add: example_env_def)
  have m1: "route_matches users_route ?u = NONE" and m2: "route_matches user_route ?u = FULL"
    and m3: "route_matches users_route ?v = PARTIAL" and m4: "route_matches user_route ?v = NONE"
    by (simp_all add: users_route_def user_route_def http_scope_def)
  have fp: "full_path ?u = ''/users/42''" "full_path ?v = ''/users''"
    by (simp_all add: full_path_def http_scope_def)
  have n1: "\<forall>r' \<in> set [users_route]. route_matches r' ?u \<noteq> FULL" by (simp add: m1)
  have n2: "\<forall>r' \<in> set (app_routes example_env 7). route_matches r' ?v \<noteq> FULL"
    unfolding a3 by (simp add: m3 m4)
  from path_classification[of "example_mw True" example_env ?u] a0
  have p1: "get_full_or_template_path example_env (example_mw True) ?u = ''/users/42''"
    by (simp add: fp)
  from path_classification[of "served_mw True" example_env ?u 7 "[users_route]" user_route "[]"]
    a1 a2 a3 n1 m2
  have p2: "get_full_or_template_path example_env (served_mw True) ?u = ''/users/{user_id}''"
    by (simp add: user_route_def)
  from path_classification[of "served_mw True" example_env ?v 7] a1 a2 n2
  have p3: "get_full_or_template_path example_env (served_mw True) ?v = ''/users''"
    by (simp add: fp)
  from a0 p1 a1 a2 a3 m1 m2 p2 m3 m4 p3 show ?thesis by (intro conjI)
qed

text \<open>
  Claim C6.  The constructor registers nothing and leaves the flag \<open>metrics_created\<close>
  unset, so two instances can be constructed on the same registry; a call on an
  instance whose flag is unset registers the four collectors (when the registry accepts
  them) and sets the flag; a call on an instance whose flag is set registers nothing.
\<close>

theorem lazy_metric_creation:
  "(reg = PyNone \<or> isinstance_Registry reg \<longrightarrow>
      (\<exists>a b. init app1 reg excl1 t1 g1 cl1 w = (Inr a, w) \<and>
             init app2 reg excl2 t2 g2 cl2 w = (Inr b, w) \<and>
             \<not> metrics_created a \<and> \<not> metrics_created b \<and> metrics_ok a \<and> metrics_ok b)) \<and>
   (\<not> metrics_created self \<and> snd (snd (ensure_metrics env self w)) = None \<longrightarrow>
      registered (fst (snd (call env self w scope send))) = registered w @ metric_collectors self \<and>
      metrics_created (fst (call env self w scope send))) \<and>
   (metrics_created self \<longrightarrow>
      registered (fst (snd (call env self w scope send))) = registered w \<and>
      metrics_created (fst (call env self w scope send)))"
proof -
  obtain self1 w1 r where ens: "ensure_metrics env self w = (self1, w1, r)"
    by (cases "ensure_metrics env self w") auto
  note A = call_after_ensure(2,3)[OF ens, of scope send]
  have "reg = PyNone \<or> isinstance_Registry reg \<longrightarrow>
      (\<exists>a b. init app1 reg excl1 t1 g1 cl1 w = (Inr a, w) \<and>
             init app2 reg excl2 t2 g2 cl2 w = (Inr b, w) \<and>
             \<not> metrics_created a \<and> \<not> metrics_created b \<and> metrics_ok a \<and> metrics_ok b)"
    by (auto simp: init_ok metrics_ok_def)
  moreover have "\<not> metrics_created self \<and> snd (snd (ensure_metrics env self w)) = None \<longrightarrow>
      registered (fst (snd (call env self w scope send))) = registered w @ metric_collectors self \<and>
      metrics_created (fst (call env self w scope send))"
  proof (intro impI, elim conjE)
    assume n: "\<not> metrics_created self" and s: "snd (snd (ensure_metrics env self w)) = None"
    from n s ens have cm: "create_metrics env self w = (self1, w1, None)"
      by (simp add: ensure_metrics_def)
    from create_metrics_success[OF cm] A
    show "registered (fst (snd (call env self w scope send))) = registered w @ metric_collectors self \<and>
      metrics_created (fst (call env self w scope send))"
      by simp
  qed
  moreover have "metrics_created self \<longrightarrow>
      registered (fst (snd (call env self w scope send))) = registered w \<and>
      metrics_created (fst (call env self w scope send))"
    using A ens by (auto simp: ensure_metrics_created)
  ultimately show ?thesis by blast
qed

text \<open>On the example application: two constructions, the first call and a later call.\<close>

theorem lazy_metric_creation_witness:
  "isinstance_Registry (Registry 0) \<and>
   init example_app (Registry 0) EXCLUDE_PATHS True False None example_world =
     (Inr (example_mw False), example_world) \<and>
   init example_app (Registry 0) EXCLUDE_PATHS True True None example_world =
     (Inr (example_mw True), example_world) \<and>
   \<not> metrics_created (example_mw False) \<and>
   snd (snd (ensure_metrics example_env (example_mw False) example_world)) = None \<and>
   registered (fst (snd (call example_env (example_mw False) example_world
       (http_scope ''/users/42'') send_ok))) =
     registered example_world @ metric_collectors (example_mw False) \<and>
   metrics_created (fst (call example_env (example_mw False) example_world
       (http_scope ''/users/42'') send_ok)) \<and>
   metrics_created (created_mw False) \<and>
   registered (fst (snd (call example_env (created_mw False) created_world
       (http_scope ''/users/42'') send_ok))) = registered created_world \<and>
   metrics_created (fst (call example_env (created_mw False) created_world
       (http_scope ''/users/42'') send_ok))"
proof -
  let ?u = "http_scope ''/users/42''"
  have r: "isinstance_Registry (Registry 0)" by simp
  have n: "\<not> metrics_created (example_mw False)" by (simp add: example_mw_def)
  have e: "snd (snd (ensure_metrics example_env (example_mw False) example_world)) = None"
    by (simp add: ensure_metrics_example)
  have c: "metrics_created (created_mw False)" by (simp add: created_mw_def)
  note A = lazy_metric_creation[of "Registry 0" example_app EXCLUDE_PATHS True False None
      example_world example_app EXCLUDE_PATHS True True None "example_mw False" example_env ?u send_ok]
  note B = lazy_metric_creation[of "Registry 0" example_app EXCLUDE_PATHS True False None
      created_world example_app EXCLUDE_PATHS True True None "created_mw False" example_env ?u send_ok]
  from A r have i: "init example_app (Registry 0) EXCLUDE_PATHS True False None example_world =
     (Inr (example_mw False), example_world)"
    "init example_app (Registry 0) EXCLUDE_PATHS True True None example_world =
     (Inr (example_mw True), example_world)"
    by (simp_all add: init_example)
  from A n e have f: "registered (fst (snd (call example_env (example_mw False) example_world ?u send_ok))) =
     registered example_world @ metric_collectors (example_mw False)"
    "metrics_created (fst (call example_env (example_mw False) example_world ?u send_ok))"
    by simp_all
  from B c have l: "registered (fst (snd (call example_env (created_mw False) created_world ?u send_ok))) =
      registered created_world"
    "metrics_created (fst (call example_env (created_mw False) created_world ?u send_ok))"
    by simp_all
  from r i n e f c l show ?thesis by (intro conjI)
qed

text \<open>
  Claim C7.  The constructor raises when the argument \<open>registry\<close> is neither \<open>None\<close> nor
  a \<open>Registry\<close>: no instance is made and nothing else happens.
\<close>

theorem invalid_registry_rejected:
  assumes "reg \<noteq> PyNone" and "\<not> isinstance_Registry reg"
  shows "\<exists>t. reg = Other t \<and>
           init app reg excl tmpl grouped cl w =
             (Inl (Exception (''registry must be a Registry, got: '' @ t)), w)"
  using assms by (cases reg) (simp_all add: init_def)

text \<open>A string passed as the registry.\<close>

theorem invalid_registry_rejected_witness:
  "Other ''<class str>'' \<noteq> PyNone \<and> \<not> isinstance_Registry (Other ''<class str>'') \<and>
   init example_app (Other ''<class str>'') EXCLUDE_PATHS True False None example_world =
     (Inl (Exception ''registry must be a Registry, got: <class str>''), example_world)"
proof -
  have h1: "Other ''<class str>'' \<noteq> PyNone" and h2: "\<not> isinstance_Registry (Other ''<class str>'')"
    by simp_all
  from invalid_registry_rejected[OF h1 h2, of example_app EXCLUDE_PATHS True False None example_world]
  have "init example_app (Other ''<class str>'') EXCLUDE_PATHS True False None example_world =
     (Inl (Exception ''registry must be a Registry, got: <class str>''), example_world)"
    by simp
  with h1 h2 show ?thesis by (intro conjI)
qed

text \<open>
  Claim C8.  An application reference that was captured is never overwritten by a
  call.  While none is captured, a call whose metrics exist takes \<open>scope.get("app")\<close>
  from a scope of type \<open>lifespan\<close>, \<open>http\<close> or \<open>websocket\<close> and nothing from another scope;
  and without a reference the path label is the literal path.
\<close>

theorem app_handle_capture:
  "(starlette_app self0 \<noteq> None \<longrightarrow>
      starlette_app (fst (call env self0 w0 scope send)) = starlette_app self0) \<and>
   (starlette_app self0 = None \<and> snd (snd (ensure_metrics env self0 w0)) = None \<longrightarrow>
      starlette_app (fst (call env self0 w0 scope send)) =
        (if scope_type scope \<in> set [''lifespan'', ''http'', ''websocket'']
         then scope_app scope else None)) \<and>
   (starlette_app self0 = None \<and> snd (snd (ensure_metrics env self0 w0)) \<noteq> None \<longrightarrow>
      starlette_app (fst (call env self0 w0 scope send)) = None) \<and>
   (starlette_app self0 = None \<longrightarrow> get_full_or_template_path env self0 scope = full_path scope)"
proof -
  obtain self1 w1 r where ens: "ensure_metrics env self0 w0 = (self1, w1, r)"
    by (cases "ensure_metrics env self0 w0") auto
  from ensure_metrics_frame[OF ens] have a1: "starlette_app self1 = starlette_app self0" by simp
  note A = call_after_ensure(1)[OF ens, of scope send]
  have "starlette_app self0 \<noteq> None \<longrightarrow>
      starlette_app (fst (call env self0 w0 scope send)) = starlette_app self0"
    using A a1 by (simp add: capture_app_app)
  moreover have "starlette_app self0 = None \<and> snd (snd (ensure_metrics env self0 w0)) = None \<longrightarrow>
      starlette_app (fst (call env self0 w0 scope send)) =
        (if scope_type scope \<in> set [''lifespan'', ''http'', ''websocket'']
         then scope_app scope else None)"
    using A a1 ens by (simp add: capture_app_app)
  moreover have "starlette_app self0 = None \<and> snd (snd (ensure_metrics env self0 w0)) \<noteq> None \<longrightarrow>
      starlette_app (fst (call env self0 w0 scope send)) = None"
    using A a1 ens by simp
  moreover have "starlette_app self0 = None \<longrightarrow>
       get_full_or_template_path env self0 scope = full_path scope"
    by (simp add: get_full_or_template_path_def full_path_def Let_def)
  ultimately show ?thesis by blast
qed

text \<open>On the example application: a call after the capture with another reference in the
  scope, the first request, a scope of another type, a call whose metric creation the
  registry rejects, and the path without a reference.\<close>

theorem app_handle_capture_witness:
  "starlette_app (served_mw False) \<noteq> None \<and>
   starlette_app (fst (call example_env (served_mw False) created_world
       ((http_scope ''/users/42'')\<lparr>scope_app := Some 8\<rparr>) send_ok)) = Some 7 \<and>
   starlette_app (example_mw False) = None \<and>
   snd (snd (ensure_metrics example_env (example_mw False) example_world)) = None \<and>
   starlette_app (fst (call example_env (example_mw False) example_world
       (http_scope ''/users/42'') send_ok)) = Some 7 \<and>
   starlette_app (fst (call example_env (example_mw False) example_world other_scope send_ok)) = None \<and>
   snd (snd (ensure_metrics example_env (example_mw False) created_world)) \<noteq> None \<and>
   starlette_app (fst (call example_env (example_mw False) created_world
       (http_scope ''/users/42'') send_ok)) = None \<and>
   get_full_or_template_path example_env (example_mw False) (http_scope ''/users/42'') = ''/users/42''"
proof -
  let ?u = "http_scope ''/users/42''"
  have a: "starlette_app (served_mw False) \<noteq> None" by (simp add: served_mw_def)
  have b: "starlette_app (example_mw False) = None" by (simp add: example_mw_def)
  have e: "snd (snd (ensure_metrics example_env (example_mw False) example_world)) = None"
    by (simp add: ensure_metrics_example)
  have f: "snd (snd (ensure_metrics example_env (example_mw False) created_world)) \<noteq> None"
    by (simp add: ensure_metrics_rejected)
  from app_handle_capture[of "served_mw False" example_env created_world
      "?u\<lparr>scope_app := Some 8\<rparr>" send_ok] a
  have 1: "starlette_app (fst (call example_env (served_mw False) created_world
       (?u\<lparr>scope_app := Some 8\<rparr>) send_ok)) = Some 7"
    by (simp add: served_mw_def)
  from app_handle_capture[of "example_mw False" example_env example_world ?u send_ok] b e
  have 2: "starlette_app (fst (call example_env (example_mw False) example_world ?u send_ok)) = Some 7"
    by (simp add: http_scope_def)
  from app_handle_capture[of "example_mw False" example_env example_world other_scope send_ok] b e
  have 3: "starlette_app (fst (call example_env (example_mw False) example_world other_scope send_ok)) = None"
    by (simp add: other_scope_def)
  from app_handle_capture[of "example_mw False" example_env created_world ?u send_ok] b f
  have 4: "starlette_app (fst (call example_env (example_mw False) created_world ?u send_ok)) = None"
    by simp
  from app_handle_capture[of "example_mw False" example_env example_world ?u send_ok] b
  have 5: "get_full_or_template_path example_env (example_mw False) ?u = ''/users/42''"
    by (simp add: full_path_def http_scope_def)
  from a 1 b e 2 3 f 4 5 show ?thesis by (intro conjI)
qed

text \<open>
  Claim C10.  On a scope whose type is none of \<open>lifespan\<close>, \<open>http\<close> and \<open>websocket\<close>, a
  call does what the creation of the metrics does and nothing else: no message is
  sent, the result does not depend on the next callable, and an instance whose
  metrics exist is returned as it was, with no exception.
\<close>

theorem other_scope_types_dropped:
  assumes "scope_type scope \<notin> set [''lifespan'', ''http'', ''websocket'']"
  shows "call env self0 w0 scope send = ensure_metrics env self0 w0 \<and>
         sent (fst (snd (call env self0 w0 scope send))) = sent w0 \<and>
         call env (self0\<lparr>asgi_callable := app\<rparr>) w0 scope send =
           (case call env self0 w0 scope send of (s, w, r) \<Rightarrow> (s\<lparr>asgi_callable := app\<rparr>, w, r)) \<and>
         (if metrics_created self0 then call env self0 w0 scope send = (self0, w0, None)
          else call env self0 w0 scope send = create_metrics env self0 w0)"
proof -
  obtain self1 w1 r where ens: "ensure_metrics env self0 w0 = (self1, w1, r)"
    by (cases "ensure_metrics env self0 w0") auto
  have cap: "\<And>s. capture_app s scope = s"
    using assms by (simp add: capture_app_def)
  have eq: "\<And>s. call env s w0 scope send = ensure_metrics env s w0"
  proof -
    fix s
    obtain s1 v1 r1 where e: "ensure_metrics env s w0 = (s1, v1, r1)"
      by (cases "ensure_metrics env s w0") auto
    show "call env s w0 scope send = ensure_metrics env s w0"
      using assms e cap by (cases r1) (simp_all add: call_def Let_def)
  qed
  have "sent w1 = sent w0" using ensure_metrics_frame[OF ens] by simp
  then have "sent (fst (snd (call env self0 w0 scope send))) = sent w0"
    using eq[of self0] ens by simp
  moreover have "call env (self0\<lparr>asgi_callable := app\<rparr>) w0 scope send =
           (case call env self0 w0 scope send of (s, w, r) \<Rightarrow> (s\<lparr>asgi_callable := app\<rparr>, w, r))"
    unfolding eq by (rule ensure_metrics_asgi_callable)
  moreover have "(if metrics_created self0 then call env self0 w0 scope send = (self0, w0, None)
          else call env self0 w0 scope send = create_metrics env self0 w0)"
    unfolding eq by (simp add: ensure_metrics_def)
  ultimately show ?thesis using eq[of self0] by blast
qed

text \<open>On the example application: a scope of type \<open>unknown\<close>, on the first call and on a
  later one, also with a next callable that would raise.\<close>

theorem other_scope_types_dropped_witness:
  "scope_type other_scope \<notin> set [''lifespan'', ''http'', ''websocket''] \<and>
   call example_env (example_mw False) example_world other_scope send_ok =
     (created_mw False, created_world, None) \<and>
   sent (fst (snd (call example_env (example_mw False) example_world other_scope send_ok))) =
     sent example_world \<and>
   metrics_created (created_mw False) \<and>
   call example_env (created_mw False) created_world other_scope send_ok =
     (created_mw False, created_world, None) \<and>
   call example_env ((created_mw False)\<lparr>asgi_callable := (\<lambda>s. Raise (Exception ''boom''))\<rparr>)
       created_world other_scope send_ok =
     ((created_mw False)\<lparr>asgi_callable := (\<lambda>s. Raise (Exception ''boom''))\<rparr>, created_world, None)"
proof -
  have h: "scope_type other_scope \<notin> set [''lifespan'', ''http'', ''websocket'']"
    by (simp add: other_scope_def)
  have c: "metrics_created (created_mw False)" by (simp add: created_mw_def)
  note A = other_scope_types_dropped[OF h, of example_env "example_mw False" example_world send_ok
      example_app]
  note B = other_scope_types_dropped[OF h, of example_env "created_mw False" created_world send_ok
      "\<lambda>s. Raise (Exception ''boom'')"]
  from A have 1: "call example_env (example_mw False) example_world other_scope send_ok =
     (created_mw False, created_world, None)"
    by (simp add: ensure_metrics_example)
  from A have 2: "sent (fst (snd (call example_env (example_mw False) example_world other_scope send_ok))) =
     sent example_world"
    by blast
  from B have "if metrics_created (created_mw False)
      then call example_env (created_mw False) created_world other_scope send_ok =
             (created_mw False, created_world, None)
      else call example_env (created_mw False) created_world other_scope send_ok =
             create_metrics example_env (created_mw False) created_world"
    by blast
  with c have 3: "call example_env (created_mw False) created_world other_scope send_ok =
     (created_mw False, created_world, None)"
    by simp
  from B have "call example_env ((created_mw False)\<lparr>asgi_callable := (\<lambda>s. Raise (Exception ''boom''))\<rparr>)
       created_world other_scope send_ok =
     (case call example_env (created_mw False) created_world other_scope send_ok of
        (s, w, r) \<Rightarrow> (s\<lparr>asgi_callable := (\<lambda>s. Raise (Exception ''boom''))\<rparr>, w, r))"
    by blast
  then have 4: "call example_env ((created_mw False)\<lparr>asgi_callable := (\<lambda>s. Raise (Exception ''boom''))\<rparr>)
       created_world other_scope send_ok =
     ((created_mw False)\<lparr>asgi_callable := (\<lambda>s. Raise (Exception ''boom''))\<rparr>, created_world, None)"
    unfolding 3 by simp
  from h 1 2 c 3 4 show ?thesis by (intro conjI)
qed

end
